theory Spec2Isabelle
  imports Complex_Main "HOL-Library.Multiset" "HOL-Library.Log_Nat"
begin

section \<open>Python values, exceptions and built-ins used by the translator\<close>

text \<open>
  The translator (\<^verbatim>\<open>src/code/hpxml_to_hescore.py\<close>) is Python 2 code: it compares the
  result of \<^verbatim>\<open>map\<close> with a list, indexes it, and relies on an exception variable
  staying bound after its \<^verbatim>\<open>except\<close> block. Python ints are modelled as \<open>int\<close> (or \<open>nat\<close>
  for the catalog values, which are never negative). A Python float is modelled by the
  rational number it stands for. In the orientation resolver, the building summary and
  the roof zones every operation on floats is rounded to a double as in the code
  (\<open>round_to_double\<close> below). In the walls, windows, ducts and heating and cooling systems
  the sums, products and quotients of areas, R-values, capacities and efficiencies are
  exact in the model, where the code rounds each result to a double. Every exception the
  modelled code can raise is a value of \<open>error\<close>; a function that can raise returns
  \<open>error + 'a\<close>, \<open>Inl\<close> being the exception.
\<close>

datatype pyval = PNone | PBool bool | PInt int | PFloat rat | PStr string | PDate int int int

datatype error =
    TranslationError string
  | InputOutOfBounds string pyval
  | KeyError
  | TypeError
  | ValueError
  | IndexError
  | ZeroDivisionError
  | AssertionError
  | OverflowError

text \<open>Sequencing of two steps of which the first may raise.\<close>

definition ebind :: "error + 'a \<Rightarrow> ('a \<Rightarrow> error + 'b) \<Rightarrow> error + 'b" where
  "ebind m f = (case m of Inl e \<Rightarrow> Inl e | Inr v \<Rightarrow> f v)"

text \<open>
  Python 2's \<^verbatim>\<open>round(x)\<close> rounds to the nearest integer, halves away from zero;
  \<^verbatim>\<open>round(x, n)\<close> does so at the n-th decimal place. \<open>py_round_nd\<close> rounds the exact
  rational and returns the exact decimal: it is the code's result up to the rounding of
  the argument and of the result to doubles, so it can differ from the code where the
  argument is a decimal tie that no double holds (the double next to 0.825 is below the
  tie, and the code returns 0.82).
\<close>

definition py_round :: "rat \<Rightarrow> int" where
  "py_round q = (if 0 \<le> q then \<lfloor>q + 1 / 2\<rfloor> else - \<lfloor>- q + 1 / 2\<rfloor>)"

definition py_round_nd :: "rat \<Rightarrow> nat \<Rightarrow> rat" where
  "py_round_nd q n = of_int (py_round (q * 10 ^ n)) / 10 ^ n"

text \<open>
  Doubles. A finite double is a rational \<open>m * 2 ^ e\<close> with \<open>\<bar>m\<bar> < 2 ^ 53\<close> and
  \<open>- 1074 \<le> e\<close>. \<^verbatim>\<open>float(s)\<close> on a decimal text and the division of two floats return
  the double nearest to the exact result, a tie going to the even significand:
  \<open>float_exponent q\<close> is the \<open>e\<close> with \<open>2 ^ e \<le> \<bar>q\<bar> < 2 ^ (e + 1)\<close>, \<open>double_ulp q\<close> the
  spacing of the doubles around \<open>q\<close> (constant below \<open>2 ^ (- 1022)\<close>, the subnormal range),
  and \<open>round_to_double q\<close> the nearest multiple of that spacing. A result of magnitude
  \<open>2 ^ 1024\<close> or more stands for an infinity.
\<close>

definition float_exponent :: "rat \<Rightarrow> int" where
  "float_exponent q =
     (case quotient_of \<bar>q\<bar> of (a, b) \<Rightarrow>
        if 2 powi (bitlen a - bitlen b) \<le> \<bar>q\<bar> then bitlen a - bitlen b
        else bitlen a - bitlen b - 1)"

definition round_half_even :: "rat \<Rightarrow> int" where
  "round_half_even m =
     (if m - of_int \<lfloor>m\<rfloor> < 1 / 2 then \<lfloor>m\<rfloor>
      else if 1 / 2 < m - of_int \<lfloor>m\<rfloor> then \<lfloor>m\<rfloor> + 1
      else if even \<lfloor>m\<rfloor> then \<lfloor>m\<rfloor> else \<lfloor>m\<rfloor> + 1)"

definition double_ulp :: "rat \<Rightarrow> rat" where
  "double_ulp q = 2 powi (max (float_exponent q) (- 1022) - 52)"

definition round_to_double :: "rat \<Rightarrow> rat" where
  "round_to_double q =
     (if q = 0 then 0 else of_int (round_half_even (q / double_ulp q)) * double_ulp q)"

definition is_infinite :: "rat \<Rightarrow> bool" where
  "is_infinite d = (2 powi 1024 \<le> \<bar>d\<bar>)"

text \<open>
  The arithmetic of floats: each operation returns the double nearest to the exact result.
  \<^verbatim>\<open>sum(xs)\<close> adds from the left, starting from 0.
\<close>

definition float_add :: "rat \<Rightarrow> rat \<Rightarrow> rat" where
  "float_add a b = round_to_double (a + b)"

definition float_sub :: "rat \<Rightarrow> rat \<Rightarrow> rat" where
  "float_sub a b = round_to_double (a - b)"

definition float_mul :: "rat \<Rightarrow> rat \<Rightarrow> rat" where
  "float_mul a b = round_to_double (a * b)"

definition float_div :: "rat \<Rightarrow> rat \<Rightarrow> rat" where
  "float_div a b = round_to_double (a / b)"

definition py_sum :: "rat list \<Rightarrow> rat" where
  "py_sum xs = foldl float_add 0 xs"

text \<open>
  \<^verbatim>\<open>min(vals, key=f)\<close> and \<^verbatim>\<open>max(vals, key=f)\<close> return the first extremal element in
  iteration order, and raise ValueError on an empty sequence.
\<close>

fun py_min_key :: "('a \<Rightarrow> rat) \<Rightarrow> 'a list \<Rightarrow> error + 'a" where
  "py_min_key f [] = Inl ValueError"
| "py_min_key f (x # xs) = Inr (fold (\<lambda>y m. if f y < f m then y else m) xs x)"

fun py_max_key :: "('a \<Rightarrow> rat) \<Rightarrow> 'a list \<Rightarrow> error + 'a" where
  "py_max_key f [] = Inl ValueError"
| "py_max_key f (x # xs) = Inr (fold (\<lambda>y m. if f m < f y then y else m) xs x)"

text \<open>\<^verbatim>\<open>round_to_nearest(x, vals) = min(vals, key=lambda y: abs(x - y))\<close>\<close>

definition round_to_nearest :: "rat \<Rightarrow> nat list \<Rightarrow> error + nat" where
  "round_to_nearest x vals = py_min_key (\<lambda>y. \<bar>x - of_nat y\<bar>) vals"

section \<open>Orientation resolver\<close>

definition hpxml_orientation_to_azimuth :: "(string \<times> int) list" where
  "hpxml_orientation_to_azimuth =
     [(''north'', 0), (''northeast'', 45), (''east'', 90), (''southeast'', 135),
      (''south'', 180), (''southwest'', 225), (''west'', 270), (''northwest'', 315)]"

text \<open>
  \<^verbatim>\<open>get_nearest_azimuth(azimuth, orientation)\<close>: the azimuth, when present, wins;
  \<^verbatim>\<open>int(round(float(azimuth) / 45.)) % 8 * 45\<close>. The azimuth is the number its text
  denotes (a text that denotes none is outside the model); \<^verbatim>\<open>float\<close> rounds it to a double, the
  quotient by 45 is rounded to a double again, \<^verbatim>\<open>round\<close> of a double is exact, and
  \<^verbatim>\<open>int\<close> raises OverflowError on an infinity. Python's \<^verbatim>\<open>%\<close> with a positive modulus
  is never negative, as \<open>mod\<close> on \<open>int\<close>.
\<close>

definition get_nearest_azimuth :: "rat option \<Rightarrow> string option \<Rightarrow> error + int" where
  "get_nearest_azimuth azimuth orientation =
     (case azimuth of
        Some a \<Rightarrow>
          (if is_infinite (round_to_double a) then Inl OverflowError
           else Inr (py_round (round_to_double (round_to_double a / 45)) mod 8 * 45))
      | None \<Rightarrow>
          (case orientation of
             None \<Rightarrow> Inl (TranslationError ''Either an orientation or azimuth is required.'')
           | Some orient \<Rightarrow>
               (case map_of hpxml_orientation_to_azimuth orient of
                  None \<Rightarrow> Inl KeyError
                | Some v \<Rightarrow> Inr v)))"

text \<open>\<^verbatim>\<open>unspin_azimuth\<close>: the two while loops bring the azimuth into [0, 360).\<close>

definition unspin_azimuth :: "int \<Rightarrow> int" where
  "unspin_azimuth azimuth = azimuth mod 360"

section \<open>Strings\<close>

text \<open>\<^verbatim>\<open>str.lower()\<close> on ASCII text.\<close>

definition py_lower_char :: "char \<Rightarrow> char" where
  "py_lower_char c =
     (let n = (of_char c :: nat) in if 65 \<le> n \<and> n \<le> 90 then char_of (n + 32) else c)"

definition py_lower :: "string \<Rightarrow> string" where
  "py_lower s = map py_lower_char s"

text \<open>
  \<^verbatim>\<open>tobool\<close>: None stays None, \<^verbatim>\<open>'true'\<close> (in any case) is True, and anything else must be
  \<^verbatim>\<open>'false'\<close>, by assertion.
\<close>

definition tobool :: "string option \<Rightarrow> error + bool option" where
  "tobool x =
     (case x of
        None \<Rightarrow> Inr None
      | Some s \<Rightarrow>
          (if py_lower s = ''true'' then Inr (Some True)
           else if py_lower s = ''false'' then Inr (Some False)
           else Inl AssertionError))"

text \<open>Truth value of an optional boolean (\<^verbatim>\<open>None\<close> is false).\<close>

definition truthy :: "bool option \<Rightarrow> bool" where
  "truthy b = (b = Some True)"

text \<open>Decimal digits of a natural number: \<^verbatim>\<open>'%d' % n\<close> and \<^verbatim>\<open>'%02d' % n\<close>.\<close>

definition digit_char :: "nat \<Rightarrow> char" where
  "digit_char d = char_of (48 + d)"

fun fmt_d :: "nat \<Rightarrow> string" where
  "fmt_d n = (if n < 10 then [digit_char n] else fmt_d (n div 10) @ [digit_char (n mod 10)])"

declare fmt_d.simps [simp del]

definition fmt_02d :: "nat \<Rightarrow> string" where
  "fmt_02d n = (if n < 10 then CHR ''0'' # fmt_d n else fmt_d n)"

text \<open>
  \<^verbatim>\<open>int(s)\<close> on a string of decimal digits, as it is applied to the two R-value
  characters of an assembly code; any other string raises ValueError.
\<close>

definition is_digit :: "char \<Rightarrow> bool" where
  "is_digit c = (48 \<le> (of_char c :: nat) \<and> (of_char c :: nat) \<le> 57)"

definition py_int :: "string \<Rightarrow> error + nat" where
  "py_int s =
     (if s \<noteq> [] \<and> list_all is_digit s
      then Inr (fold (\<lambda>c acc. 10 * acc + ((of_char c :: nat) - 48)) s 0)
      else Inl ValueError)"

text \<open>The slice \<^verbatim>\<open>s[i:j]\<close> for \<open>0 \<le> i \<le> j\<close>.\<close>

definition slice :: "nat \<Rightarrow> nat \<Rightarrow> string \<Rightarrow> string" where
  "slice i j s = drop i (take j s)"

text \<open>The text of an optional string inside a message (\<^verbatim>\<open>'%s' % None\<close> prints None).\<close>

definition fmt_s :: "string option \<Rightarrow> string" where
  "fmt_s x = (case x of None \<Rightarrow> ''None'' | Some s \<Rightarrow> s)"

section \<open>Wall classification\<close>

text \<open>
  The elements of a source wall that \<^verbatim>\<open>get_wall_assembly_code\<close> and
  \<^verbatim>\<open>_get_building_zone_wall\<close> query: each field holds the result of one path query
  (\<open>None\<close> when the element is absent).
\<close>

record layer =
  lyr_rigid :: bool
  lyr_installation_type :: "string option"
  lyr_nominal_rvalue :: "rat option"

record hpxml_wall =
  wall_sysid :: string
  wall_type :: string
  wall_eps_sheathing :: "string option"
  wall_ove :: "string option"
  wall_layers :: "layer list"
  wall_siding :: "string option"
  wall_area :: "rat option"
  wall_azimuth :: "rat option"
  wall_orientation :: "string option"

definition sidingmap :: "(string \<times> string option) list" where
  "sidingmap =
     [(''wood siding'', Some ''wo''),
      (''stucco'', Some ''st''),
      (''synthetic stucco'', Some ''st''),
      (''vinyl siding'', Some ''vi''),
      (''aluminum siding'', Some ''al''),
      (''brick veneer'', Some ''br''),
      (''asbestos siding'', Some ''wo''),
      (''fiber cement siding'', Some ''wo''),
      (''composite shingle siding'', Some ''wo''),
      (''masonite siding'', Some ''wo''),
      (''other'', None)]"

text \<open>\<^verbatim>\<open>sidingmap[hpxmlsiding]\<close>: a missing siding (\<open>None\<close>) is not a key either.\<close>

definition sidingmap_lookup :: "string option \<Rightarrow> error + string option" where
  "sidingmap_lookup hpxmlsiding =
     (case hpxmlsiding of
        None \<Rightarrow> Inl KeyError
      | Some s \<Rightarrow> (case map_of sidingmap s of None \<Rightarrow> Inl KeyError | Some v \<Rightarrow> Inr v))"

text \<open>
  The wood-stud loop over the insulation layers: a rigid, continuous layer sets the flag
  and its R-value is not read; every other layer adds \<^verbatim>\<open>float(NominalRValue)\<close>, which
  raises TypeError when the layer has none.
\<close>

fun cavity_loop :: "layer list \<Rightarrow> bool \<Rightarrow> rat \<Rightarrow> error + (bool \<times> rat)" where
  "cavity_loop [] has_rigid_ins cavity_rvalue = Inr (has_rigid_ins, cavity_rvalue)"
| "cavity_loop (lyr # lyrs) has_rigid_ins cavity_rvalue =
     (if lyr_rigid lyr \<and> lyr_installation_type lyr = Some ''continuous''
      then cavity_loop lyrs True cavity_rvalue
      else (case lyr_nominal_rvalue lyr of
              None \<Rightarrow> Inl TypeError
            | Some r \<Rightarrow> cavity_loop lyrs has_rigid_ins (cavity_rvalue + r)))"

text \<open>The loop of the brick and masonry branches: the plain sum of the layers.\<close>

fun rvalue_loop :: "layer list \<Rightarrow> rat \<Rightarrow> error + rat" where
  "rvalue_loop [] rvalue = Inr rvalue"
| "rvalue_loop (lyr # lyrs) rvalue =
     (case lyr_nominal_rvalue lyr of
        None \<Rightarrow> Inl TypeError
      | Some r \<Rightarrow> rvalue_loop lyrs (rvalue + r))"

text \<open>\<^verbatim>\<open>'ew%s%02d%s' % (wallconstype, rvalue, sidingtype)\<close>\<close>

definition wall_code :: "string \<Rightarrow> nat \<Rightarrow> string \<Rightarrow> string" where
  "wall_code wallconstype rvalue sidingtype = ''ew'' @ wallconstype @ fmt_02d rvalue @ sidingtype"

text \<open>
  The siding of a wood-stud wall: a siding that is no key of the table (or is absent) and
  a siding the table maps to None are two different translation errors.
\<close>

definition wood_stud_siding :: "hpxml_wall \<Rightarrow> error + string" where
  "wood_stud_siding w =
     (case sidingmap_lookup (wall_siding w) of
        Inl _ \<Rightarrow>
          Inl (TranslationError
                 (''Wall '' @ wall_sysid w @ '': Exterior finish information is missing''))
      | Inr None \<Rightarrow>
          Inl (TranslationError
                 (''Wall '' @ wall_sysid w
                  @ '': There is no HEScore wall siding equivalent for the HPXML option: ''
                  @ fmt_s (wall_siding w)))
      | Inr (Some sidingtype) \<Rightarrow> Inr sidingtype)"

text \<open>
  The siding of a masonry wall: none at all is \<^verbatim>\<open>'nn'\<close>; otherwise the table is read
  without a handler (KeyError) and only stucco and brick are accepted.
\<close>

definition masonry_siding :: "hpxml_wall \<Rightarrow> error + string" where
  "masonry_siding w =
     (case wall_siding w of
        None \<Rightarrow> Inr ''nn''
      | Some hpxmlsiding \<Rightarrow>
          ebind (sidingmap_lookup (Some hpxmlsiding)) (\<lambda>sidingtype.
            if sidingtype = Some ''st'' then Inr ''st''
            else if sidingtype = Some ''br'' then Inr ''br''
            else Inl (TranslationError
                   (''Wall '' @ wall_sysid w
                    @ '': is a CMU and needs a siding of stucco, brick, or none to translate to HEScore. It has a siding type of ''
                    @ hpxmlsiding))))"

text \<open>The construction subtype of a wood-stud wall and its snapped cavity R-value.\<close>

definition wood_stud_constype :: "hpxml_wall \<Rightarrow> bool \<Rightarrow> rat \<Rightarrow> error + (string \<times> nat)" where
  "wood_stud_constype w has_rigid_ins cavity_rvalue =
     ebind (tobool (wall_eps_sheathing w)) (\<lambda>eps.
       if truthy eps \<or> has_rigid_ins
       then ebind (round_to_nearest cavity_rvalue [0, 3, 7, 11, 13, 15, 19, 21])
              (\<lambda>rvalue. Inr (''ps'', rvalue))
       else ebind (tobool (wall_ove w)) (\<lambda>ove.
         if truthy ove
         then ebind (round_to_nearest cavity_rvalue [19, 21, 27, 33, 38])
                (\<lambda>rvalue. Inr (''ov'', rvalue))
         else ebind (round_to_nearest cavity_rvalue [0, 3, 7, 11, 13, 15, 19, 21])
                (\<lambda>rvalue. Inr (''wf'', rvalue))))"

definition get_wall_assembly_code :: "hpxml_wall \<Rightarrow> error + string" where
  "get_wall_assembly_code w =
     (if wall_type w = ''WoodStud'' then
        ebind (cavity_loop (wall_layers w) False 0) (\<lambda>(has_rigid_ins, cavity_rvalue).
        ebind (wood_stud_constype w has_rigid_ins cavity_rvalue) (\<lambda>(wallconstype, rvalue).
        ebind (wood_stud_siding w) (\<lambda>sidingtype.
        Inr (wall_code wallconstype rvalue sidingtype))))
      else if wall_type w = ''StructuralBrick'' then
        ebind (rvalue_loop (wall_layers w) 0) (\<lambda>rsum.
        ebind (round_to_nearest rsum [0, 5, 10]) (\<lambda>rvalue.
        Inr (wall_code ''br'' rvalue ''nn'')))
      else if wall_type w = ''ConcreteMasonryUnit'' \<or> wall_type w = ''Stone'' then
        ebind (rvalue_loop (wall_layers w) 0) (\<lambda>rsum.
        ebind (round_to_nearest rsum [0, 3, 6]) (\<lambda>rvalue.
        ebind (masonry_siding w) (\<lambda>sidingtype.
        Inr (wall_code ''cb'' rvalue sidingtype))))
      else if wall_type w = ''StrawBale'' then
        Inr (wall_code ''sb'' 0 ''st'')
      else Inl (TranslationError (''Wall type '' @ wall_type w @ '' not supported'')))"

section \<open>Dictionaries\<close>

text \<open>
  A Python dict is modelled as an association list with distinct keys. Reading a missing
  key raises KeyError; assignment replaces the value of a present key and adds an absent
  key at the end. The iteration order of a Python 2 dict is not fixed by the language;
  the model iterates in insertion order, which matters only where \<^verbatim>\<open>min\<close>, \<^verbatim>\<open>max\<close>
  or a sort meets a tie, or where the order of a result list follows a dict.
\<close>

definition dict_get :: "('k \<times> 'v) list \<Rightarrow> 'k \<Rightarrow> error + 'v" where
  "dict_get d k = (case map_of d k of None \<Rightarrow> Inl KeyError | Some v \<Rightarrow> Inr v)"

definition dict_set :: "('k \<times> 'v) list \<Rightarrow> 'k \<Rightarrow> 'v \<Rightarrow> ('k \<times> 'v) list" where
  "dict_set d k v =
     (if map_of d k = None then d @ [(k, v)]
      else map (\<lambda>kv. if fst kv = k then (k, v) else kv) d)"

definition dict_del :: "('k \<times> 'v) list \<Rightarrow> 'k \<Rightarrow> ('k \<times> 'v) list" where
  "dict_del d k = filter (\<lambda>kv. fst kv \<noteq> k) d"

text \<open>\<^verbatim>\<open>d[k].append(v)\<close>\<close>

definition dict_append :: "('k \<times> 'v list) list \<Rightarrow> 'k \<Rightarrow> 'v \<Rightarrow> error + ('k \<times> 'v list) list" where
  "dict_append d k v = ebind (dict_get d k) (\<lambda>vs. Inr (dict_set d k (vs @ [v])))"

text \<open>\<^verbatim>\<open>d[k] += v\<close> on a dict of numbers.\<close>

definition dict_add :: "('k \<times> rat) list \<Rightarrow> 'k \<Rightarrow> rat \<Rightarrow> error + ('k \<times> rat) list" where
  "dict_add d k v = ebind (dict_get d k) (\<lambda>old. Inr (dict_set d k (old + v)))"

text \<open>
  \<^verbatim>\<open>try: d[k] += v  except KeyError: d[k] = v\<close>, the accumulation idiom of the source.
\<close>

definition dict_accum :: "('k \<times> rat) list \<Rightarrow> 'k \<Rightarrow> rat \<Rightarrow> ('k \<times> rat) list" where
  "dict_accum d k v =
     (case map_of d k of None \<Rightarrow> dict_set d k v | Some old \<Rightarrow> dict_set d k (old + v))"

text \<open>
  \<^verbatim>\<open>max(d.keys(), key=lambda x: d[x])\<close>: the first key, in iteration order, of greatest
  value.
\<close>

definition dict_argmax :: "('k \<times> rat) list \<Rightarrow> error + 'k" where
  "dict_argmax d = ebind (py_max_key snd d) (\<lambda>kv. Inr (fst kv))"

section \<open>Wall zones: one assembly code per side\<close>

record walld =
  wd_assembly_code :: string
  wd_area :: "rat option"
  wd_id :: string

definition wall_const_types :: "string list" where
  "wall_const_types = [''wf'', ''ps'', ''ov'', ''br'', ''cb'', ''sb'']"

definition wall_ext_finish_types :: "string list" where
  "wall_ext_finish_types = [''wo'', ''st'', ''vi'', ''al'', ''br'', ''nn'']"

text \<open>
  The wall effective R-value map: construction type, then exterior finish, then nominal
  R-value.
\<close>

definition wall_eff_rvalues :: "(string \<times> (string \<times> (nat \<times> rat) list) list) list" where
  "wall_eff_rvalues =
     [(''wf'', zip (butlast wall_ext_finish_types)
         (map (zip [0, 3, 7, 11, 13, 15, 19, 21])
            [[3.6, 5.7, 9.7, 13.7, 15.7, 17.7, 21.7, 23.7],
             [2.3, 4.4, 8.4, 12.4, 14.4, 16.4, 20.4, 22.4],
             [2.2, 4.3, 8.3, 12.3, 14.3, 16.3, 20.3, 22.3],
             [2.1, 4.2, 8.2, 12.2, 14.2, 16.2, 20.2, 22.2],
             [2.9, 5.0, 9.0, 13.0, 15.0, 17.0, 21.0, 23.0]])),
      (''ps'', zip (butlast wall_ext_finish_types)
         (map (zip [11, 13, 15, 19, 21])
            [[17.1, 19.1, 21.1, 25.1, 27.1],
             [16.4, 18.4, 20.4, 24.4, 26.4],
             [16.3, 18.3, 20.3, 24.3, 26.3],
             [16.2, 18.2, 20.2, 24.2, 26.2],
             [17.0, 19.0, 21.0, 25.0, 27.0]])),
      (''ov'', zip (butlast wall_ext_finish_types)
         (map (zip [19, 21, 27, 33, 38])
            [[21.0, 23.0, 29.0, 35.0, 40.0],
             [20.3, 22.3, 28.3, 34.3, 39.3],
             [20.1, 22.1, 28.1, 34.1, 39.1],
             [20.1, 22.1, 28.1, 34.1, 39.1],
             [20.9, 22.9, 28.9, 34.9, 39.9]])),
      (''br'', [(''nn'', zip [0, 5, 10] [2.9, 7.9, 12.8])]),
      (''cb'', zip [''st'', ''br'', ''nn'']
         (map (zip [0, 3, 6])
            [[4.1, 5.7, 8.5],
             [5.6, 7.2, 10],
             [4, 5.6, 8.3]])),
      (''sb'', [(''st'', [(0, 58.8)])])]"

text \<open>\<^verbatim>\<open>wall_eff_rvalues[const_type][ext_finish]\<close> and \<^verbatim>\<open>...[rvalue]\<close>\<close>

definition wall_eff_table :: "string \<Rightarrow> string \<Rightarrow> error + (nat \<times> rat) list" where
  "wall_eff_table const_type ext_finish =
     ebind (dict_get wall_eff_rvalues const_type) (\<lambda>by_finish. dict_get by_finish ext_finish)"

definition wall_eff_rvalue :: "string \<Rightarrow> string \<Rightarrow> nat \<Rightarrow> error + rat" where
  "wall_eff_rvalue const_type ext_finish rvalue =
     ebind (wall_eff_table const_type ext_finish) (\<lambda>tab. dict_get tab rvalue)"

text \<open>
  The walls of one side before they are combined: a single wall without an area gets the
  area 1.0; of several walls each needs an area.
\<close>

definition default_wall_areas :: "string \<Rightarrow> walld list \<Rightarrow> error + walld list" where
  "default_wall_areas side ws =
     (case ws of
        [w] \<Rightarrow> (if wd_area w = None then Inr [w\<lparr>wd_area := Some 1\<rparr>] else Inr ws)
      | _ \<Rightarrow>
        (if length ws > 1 \<and> None \<in> set (map wd_area ws)
         then Inl (TranslationError
                (''The '' @ side @ '' side of the house has '' @ fmt_d (length ws)
                 @ '' walls and they do not all have areas.''))
         else Inr ws))"

text \<open>
  The running sums of the loop over the walls of a side: \<^verbatim>\<open>wallra\<close>, \<^verbatim>\<open>walltotalarea\<close>
  and the area by construction type and by exterior finish.
\<close>

record wall_sums =
  wallra :: rat
  walltotalarea :: rat
  wall_const_type_areas :: "(string \<times> rat) list"
  wall_ext_finish_areas :: "(string \<times> rat) list"

definition wall_sums_init :: wall_sums where
  "wall_sums_init =
     \<lparr>wallra = 0, walltotalarea = 0,
      wall_const_type_areas = zip wall_const_types (replicate (length wall_const_types) 0),
      wall_ext_finish_areas = zip wall_ext_finish_types (replicate (length wall_ext_finish_types) 0)\<rparr>"

definition wall_sums_step :: "walld \<Rightarrow> wall_sums \<Rightarrow> error + wall_sums" where
  "wall_sums_step wd acc =
     (let const_type = slice 2 4 (wd_assembly_code wd);
          ext_finish = slice 6 8 (wd_assembly_code wd)
      in ebind (py_int (slice 4 6 (wd_assembly_code wd))) (\<lambda>rvalue.
         ebind (wall_eff_rvalue const_type ext_finish rvalue) (\<lambda>eff_rvalue.
         case wd_area wd of
           None \<Rightarrow> Inl TypeError
         | Some a \<Rightarrow>
             ebind (dict_add (wall_const_type_areas acc) const_type a) (\<lambda>cta.
             ebind (dict_add (wall_ext_finish_areas acc) ext_finish a) (\<lambda>efa.
             Inr \<lparr>wallra = wallra acc + a * eff_rvalue,
                  walltotalarea = walltotalarea acc + a,
                  wall_const_type_areas = cta,
                  wall_ext_finish_areas = efa\<rparr>)))))"

fun wall_sums_loop :: "walld list \<Rightarrow> wall_sums \<Rightarrow> error + wall_sums" where
  "wall_sums_loop [] acc = Inr acc"
| "wall_sums_loop (wd # wds) acc = ebind (wall_sums_step wd acc) (wall_sums_loop wds)"

text \<open>
  The base offset of a table: its effective value at nominal 0 or, in a table without the
  key 0, the effective value less the nominal value at the least key. The handler catches
  any KeyError of the three lookups and reads the table again.
\<close>

definition wall_roffset :: "string \<Rightarrow> string \<Rightarrow> error + rat" where
  "wall_roffset const_type ext_finish =
     (case wall_eff_rvalue const_type ext_finish 0 of
        Inr roffset \<Rightarrow> Inr roffset
      | Inl _ \<Rightarrow>
          ebind (wall_eff_table const_type ext_finish) (\<lambda>tab.
          ebind (py_min_key (\<lambda>x. of_nat (fst x)) tab) (\<lambda>(rvalue, eff_rvalue).
          Inr (eff_rvalue - of_nat rvalue))))"

text \<open>
  The normalization of one side, from the sums and the dominant construction type and
  finish: the mean effective value \<^verbatim>\<open>rvalueavgeff = wallra / walltotalarea\<close>, less the
  offset (\<^verbatim>\<open>rvalueavgnom\<close>), snapped to the nearest key of the table.
\<close>

definition wall_comb_rvalue :: "string \<Rightarrow> string \<Rightarrow> rat \<Rightarrow> rat \<Rightarrow> error + nat" where
  "wall_comb_rvalue const_type ext_finish ra totalarea =
     ebind (wall_roffset const_type ext_finish) (\<lambda>roffset.
       if totalarea = 0 then Inl ZeroDivisionError
       else
         ebind (wall_eff_table const_type ext_finish) (\<lambda>tab.
         py_min_key (\<lambda>x. \<bar>(ra / totalarea - roffset) - of_nat x\<bar>) (map fst tab)))"

text \<open>The body of the loop \<^verbatim>\<open>for side in sidemap.values()\<close> that builds the walls.\<close>

definition hescore_wall_code :: "string \<Rightarrow> walld list \<Rightarrow> error + string" where
  "hescore_wall_code side ws =
     ebind (default_wall_areas side ws) (\<lambda>ws'.
     ebind (wall_sums_loop ws' wall_sums_init) (\<lambda>acc.
     ebind (dict_argmax (wall_const_type_areas acc)) (\<lambda>const_type.
     ebind (dict_argmax (wall_ext_finish_areas acc)) (\<lambda>ext_finish.
     ebind (wall_comb_rvalue const_type ext_finish (wallra acc) (walltotalarea acc))
       (\<lambda>comb_rvalue.
     Inr (wall_code const_type comb_rvalue ext_finish))))))"





section \<open>Loops that may raise\<close>

fun emap :: "('a \<Rightarrow> error + 'b) \<Rightarrow> 'a list \<Rightarrow> error + 'b list" where
  "emap f [] = Inr []"
| "emap f (x # xs) = ebind (f x) (\<lambda>y. ebind (emap f xs) (\<lambda>ys. Inr (y # ys)))"

fun efold :: "('a \<Rightarrow> 's \<Rightarrow> error + 's) \<Rightarrow> 'a list \<Rightarrow> 's \<Rightarrow> error + 's" where
  "efold f [] s = Inr s"
| "efold f (x # xs) s = ebind (f x s) (efold f xs)"

section \<open>Window classification\<close>

record hpxml_window =
  win_area :: "rat option"
  win_quantity :: "int option"
  win_ufactor :: "rat option"
  win_shgc :: "rat option"
  win_frame_type :: string
  win_thermal_break :: "string option"
  win_glass_layers :: "string option"
  win_glass_type :: "string option"
  win_gas_fill :: "string option"
  win_attached_to_wall :: "string option"
  win_azimuth :: "rat option"
  win_orientation :: "string option"

definition startswith :: "string \<Rightarrow> string \<Rightarrow> bool" where
  "startswith s p = (take (length p) s = p)"

definition double_pane_like :: "string option \<Rightarrow> bool" where
  "double_pane_like glass_layers =
     (glass_layers = Some ''double-pane'' \<or> glass_layers = Some ''single-paned with storms''
      \<or> glass_layers = Some ''single-paned with low-e storms'')"

definition tinted_family :: "string option \<Rightarrow> bool" where
  "tinted_family glass_type =
     (glass_type = Some ''tinted'' \<or> glass_type = Some ''low-e''
      \<or> glass_type = Some ''tinted/reflective'')"

text \<open>
  \<^verbatim>\<open>get_window_code\<close>: the decision tree over frame type, thermal break, glass layers,
  glass type and gas fill. The result of the tree is \<open>None\<close> where no branch assigns a
  code, which raises the translation error.
\<close>

definition window_code_tree :: "hpxml_window \<Rightarrow> error + string option" where
  "window_code_tree w =
     (if win_frame_type w = ''Aluminum'' \<or> win_frame_type w = ''Metal'' then
        ebind (tobool (win_thermal_break w)) (\<lambda>thermal_break.
          if truthy thermal_break then
            (if double_pane_like (win_glass_layers w) then
               (if win_glass_layers w = Some ''double-pane'' \<and> win_glass_type w = Some ''low-e''
                   \<and> win_gas_fill w = Some ''argon'' then Inr (Some ''dpeaab'')
                else if win_glass_type w = Some ''reflective'' then Inr (Some ''dseab'')
                else if win_glass_type w \<noteq> None \<and> startswith (fmt_s (win_glass_type w)) ''tinted''
                  then Inr (Some ''dtab'')
                else Inr (Some ''dcab''))
             else Inr None)
          else
            (if win_glass_layers w = Some ''single-pane'' then
               (if tinted_family (win_glass_type w) then Inr (Some ''stna'') else Inr (Some ''scna''))
             else if double_pane_like (win_glass_layers w) then
               (if win_glass_type w = Some ''reflective'' \<or> win_glass_type w = Some ''tinted/reflective''
                  then Inr (Some ''dseaa'')
                else if win_glass_type w = Some ''tinted'' then Inr (Some ''dtaa'')
                else Inr (Some ''dcaa''))
             else Inr None))
      else if win_frame_type w = ''Vinyl'' \<or> win_frame_type w = ''Wood'' \<or> win_frame_type w = ''Fiberglass''
              \<or> win_frame_type w = ''Composite'' then
        (if win_glass_layers w = Some ''single-pane'' then
           (if tinted_family (win_glass_type w) then Inr (Some ''stnw'') else Inr (Some ''scnw''))
         else if double_pane_like (win_glass_layers w) then
           (if (win_glass_layers w = Some ''double-pane'' \<and> win_glass_type w = Some ''low-e'')
               \<or> win_glass_layers w = Some ''single-paned with low-e storms'' then
              (if win_gas_fill w = Some ''argon'' \<and> win_glass_layers w = Some ''double-pane''
                 then Inr (Some ''dpeaaw'') else Inr (Some ''dpeaw''))
            else if win_glass_type w = Some ''reflective'' then
              (if win_gas_fill w = Some ''argon'' \<and> win_glass_layers w = Some ''double-pane''
                 then Inr (Some ''dseaaw'') else Inr (Some ''dseaw''))
            else if win_glass_type w \<noteq> None \<and> startswith (fmt_s (win_glass_type w)) ''tinted''
              then Inr (Some ''dtaw'')
            else Inr (Some ''dcaw''))
         else if win_glass_layers w = Some ''triple-pane'' then Inr (Some ''thmabw'')
         else Inr None)
      else Inr None)"

definition get_window_code :: "hpxml_window \<Rightarrow> error + string" where
  "get_window_code w =
     ebind (window_code_tree w) (\<lambda>window_code.
       case window_code of
         None \<Rightarrow> Inl (TranslationError ''Cannot translate window type.'')
       | Some c \<Rightarrow> Inr c)"

section \<open>Wall zones: assigning walls and windows to sides\<close>

text \<open>
  The part of \<^verbatim>\<open>bldg_about\<close> that the translator builds in \<^verbatim>\<open>_get_building_about\<close>; the
  key \<^verbatim>\<open>town_house_walls\<close> exists for town houses only, and of \<^verbatim>\<open>envelope_leakage\<close>
  and \<^verbatim>\<open>air_sealing_present\<close> exactly one exists. Each field \<open>about_k\<close> is the key \<open>k\<close>.
\<close>

record bldg_about =
  about_assessment_date :: pyval
  about_shape :: string
  about_town_house_walls :: "string option"
  about_year_built :: int
  about_number_bedrooms :: int
  about_num_floor_above_grade :: int
  about_floor_to_ceiling_height :: int
  about_conditioned_floor_area :: int
  about_orientation :: string
  about_blower_door_test :: bool
  about_envelope_leakage :: "pyval option"
  about_air_sealing_present :: "bool option"

text \<open>
  \<^verbatim>\<open>self.sidemap\<close> maps the four azimuths of the building's sides to
  \<^verbatim>\<open>'front'\<close>, \<^verbatim>\<open>'right'\<close>, \<^verbatim>\<open>'back'\<close> and \<^verbatim>\<open>'left'\<close>.
\<close>

type_synonym sidemap = "(int \<times> string) list"

definition hpxmlwalls_init :: "sidemap \<Rightarrow> (string \<times> walld list) list" where
  "hpxmlwalls_init sidemap =
     dict_set (fold (\<lambda>side d. dict_set d side []) (map snd sidemap) []) ''noside'' []"

text \<open>
  One wall: its code, area and id go to the side its azimuth (or orientation) maps to; a
  wall between two sides goes to both neighbours with half its area; a wall with neither
  azimuth nor orientation goes to \<^verbatim>\<open>'noside'\<close>.
\<close>

definition assign_wall :: "sidemap \<Rightarrow> hpxml_wall \<Rightarrow> (string \<times> walld list) list
    \<Rightarrow> error + (string \<times> walld list) list" where
  "assign_wall sidemap wall hpxmlwalls =
     ebind (get_wall_assembly_code wall) (\<lambda>code.
       case get_nearest_azimuth (wall_azimuth wall) (wall_orientation wall) of
         Inl (TranslationError _) \<Rightarrow>
           dict_append hpxmlwalls ''noside''
             \<lparr>wd_assembly_code = code, wd_area = wall_area wall, wd_id = wall_sysid wall\<rparr>
       | Inl e \<Rightarrow> Inl e
       | Inr az \<Rightarrow>
           (case map_of sidemap az of
              Some wall_side \<Rightarrow>
                dict_append hpxmlwalls wall_side
                  \<lparr>wd_assembly_code = code, wd_area = wall_area wall, wd_id = wall_sysid wall\<rparr>
            | None \<Rightarrow>
                (case wall_area wall of
                   None \<Rightarrow> Inl TypeError
                 | Some a \<Rightarrow>
                     ebind (dict_get sidemap (unspin_azimuth (az + 45))) (\<lambda>side1.
                     ebind (dict_append hpxmlwalls side1
                       \<lparr>wd_assembly_code = code, wd_area = Some (a / 2), wd_id = wall_sysid wall\<rparr>)
                       (\<lambda>hpxmlwalls1.
                     ebind (dict_get sidemap (unspin_azimuth (az - 45))) (\<lambda>side2.
                     dict_append hpxmlwalls1 side2
                       \<lparr>wd_assembly_code = code, wd_area = Some (a / 2),
                        wd_id = wall_sysid wall\<rparr>))))))"

text \<open>
  After the loop: if no wall has a direction, every side gets all the walls and the key
  \<^verbatim>\<open>'noside'\<close> is deleted; walls with and without direction together are an error.
\<close>

definition spread_noside :: "sidemap \<Rightarrow> (string \<times> walld list) list
    \<Rightarrow> error + (string \<times> walld list) list" where
  "spread_noside sidemap hpxmlwalls =
     ebind (dict_get hpxmlwalls ''noside'') (\<lambda>noside.
     ebind (emap (dict_get hpxmlwalls) (map snd sidemap)) (\<lambda>by_side.
       if length noside > 0 \<and> map length by_side = [0, 0, 0, 0]
       then Inr (dict_del (fold (\<lambda>side d. dict_set d side noside) (map snd sidemap) hpxmlwalls)
                   ''noside'')
       else if length noside > 0
       then Inl (TranslationError
              ''Some of the HPXML walls have orientation information and others do not.'')
       else Inr hpxmlwalls))"

record windowd =
  wnd_area :: rat
  wnd_uvalue :: "rat option"
  wnd_shgc :: "rat option"
  wnd_window_code :: "string option"

text \<open>The head of the loop over the windows: area, quantity, U-value, SHGC and code.\<close>

definition make_windowd :: "hpxml_window \<Rightarrow> error + windowd" where
  "make_windowd w =
     (case win_area w of
        None \<Rightarrow> Inl (TranslationError ''All windows need an area.'')
      | Some a \<Rightarrow>
          (if win_ufactor w \<noteq> None \<and> win_shgc w \<noteq> None
           then Inr \<lparr>wnd_area = (case win_quantity w of None \<Rightarrow> a | Some q \<Rightarrow> a * of_int q),
                     wnd_uvalue = win_ufactor w, wnd_shgc = win_shgc w, wnd_window_code = None\<rparr>
           else ebind (get_window_code w) (\<lambda>c.
                Inr \<lparr>wnd_area = (case win_quantity w of None \<Rightarrow> a | Some q \<Rightarrow> a * of_int q),
                     wnd_uvalue = win_ufactor w, wnd_shgc = win_shgc w,
                     wnd_window_code = Some c\<rparr>)))"

text \<open>
  The sides of a window. With \<^verbatim>\<open>AttachedToWall\<close>: every key of \<^verbatim>\<open>hpxmlwalls\<close> whose list
  holds a wall of that id. Without: the side of its azimuth; the lookup
  \<^verbatim>\<open>sidemap[wndw_azimuth]\<close> stands inside the \<^verbatim>\<open>try\<close> whose handler catches
  TranslationError only, so a window between two sides raises KeyError there and the
  \<^verbatim>\<open>else\<close> branch that would split it is reached only when the lookup succeeds.
\<close>

definition window_sides_of :: "sidemap \<Rightarrow> (string \<times> walld list) list \<Rightarrow> hpxml_window
    \<Rightarrow> error + string list" where
  "window_sides_of sidemap hpxmlwalls w =
     (case win_attached_to_wall w of
        Some attached_to_wall_id \<Rightarrow>
          Inr (map fst (filter (\<lambda>(side, walls). list_ex (\<lambda>wall. attached_to_wall_id = wd_id wall) walls)
                 hpxmlwalls))
      | None \<Rightarrow>
          (case get_nearest_azimuth (win_azimuth w) (win_orientation w) of
             Inl (TranslationError _) \<Rightarrow>
               Inl (TranslationError
                 ''All windows need to have either an AttachedToWall, Orientation, or Azimuth sub element.'')
           | Inl e \<Rightarrow> Inl e
           | Inr az \<Rightarrow>
               ebind (dict_get sidemap az) (\<lambda>_.
                 case dict_get sidemap az of
                   Inr side \<Rightarrow> Inr [side]
                 | Inl _ \<Rightarrow>
                     emap (\<lambda>x. dict_get sidemap (unspin_azimuth (az + x))) [- 45, 45])))"

text \<open>
  \<^verbatim>\<open>for window_side in window_sides: windowd['area'] /= float(len(window_sides)); ...\<close>
  The division is applied to the same dict at every turn, so the area shrinks from side
  to side.
\<close>

fun place_window :: "nat \<Rightarrow> string list \<Rightarrow> windowd \<Rightarrow> (string \<times> windowd list) list
    \<Rightarrow> error + (string \<times> windowd list) list" where
  "place_window n [] windowd hpxmlwindows = Inr hpxmlwindows"
| "place_window n (window_side # rest) windowd hpxmlwindows =
     ebind (dict_append hpxmlwindows window_side (windowd\<lparr>wnd_area := wnd_area windowd / of_nat n\<rparr>))
       (place_window n rest (windowd\<lparr>wnd_area := wnd_area windowd / of_nat n\<rparr>))"

definition assign_window :: "sidemap \<Rightarrow> (string \<times> walld list) list \<Rightarrow> hpxml_window
    \<Rightarrow> (string \<times> windowd list) list \<Rightarrow> error + (string \<times> windowd list) list" where
  "assign_window sidemap hpxmlwalls w hpxmlwindows =
     ebind (make_windowd w) (\<lambda>windowd.
     ebind (window_sides_of sidemap hpxmlwalls w) (\<lambda>window_sides.
     place_window (length window_sides) window_sides windowd hpxmlwindows))"

definition hpxmlwindows_init :: "sidemap \<Rightarrow> (string \<times> windowd list) list" where
  "hpxmlwindows_init sidemap = fold (\<lambda>side d. dict_set d side []) (map snd sidemap) []"

text \<open>\<^verbatim>\<open>s.split(c)\<close> for a one-character separator.\<close>

fun py_split :: "char \<Rightarrow> string \<Rightarrow> string list" where
  "py_split c [] = [[]]"
| "py_split c (x # xs) =
     (if x = c then [] # py_split c xs
      else (case py_split c xs of [] \<Rightarrow> [[x]] | w # ws \<Rightarrow> (x # w) # ws))"

text \<open>
  \<^verbatim>\<open>windows_are_on_shared_walls\<close>: the shared sides are the sides that the value of
  \<^verbatim>\<open>town_house_walls\<close> does not name; the answer is whether one of them has a window.
  Every side is a key of \<^verbatim>\<open>hpxmlwindows\<close>, so the lookup cannot fail there.
\<close>

definition shared_wall_sides :: "sidemap \<Rightarrow> string \<Rightarrow> string list" where
  "shared_wall_sides sidemap thw =
     filter (\<lambda>side. side \<notin> set (py_split (CHR ''_'') thw)) (remdups (map snd sidemap))"

definition windows_are_on_shared_walls :: "sidemap \<Rightarrow> string \<Rightarrow> (string \<times> windowd list) list
    \<Rightarrow> bool" where
  "windows_are_on_shared_walls sidemap thw hpxmlwindows =
     list_ex (\<lambda>side. case map_of hpxmlwindows side of
                       None \<Rightarrow> False
                     | Some windows \<Rightarrow> length windows > 0)
       (shared_wall_sides sidemap thw)"

text \<open>
  The check for town houses. A window on a shared wall of a house whose walls are
  \<^verbatim>\<open>'back_right_front'\<close> first makes the walls \<^verbatim>\<open>'back_front_left'\<close>, in \<^verbatim>\<open>bldg_about\<close>
  itself, and the check is run again.
\<close>

definition town_house_check :: "sidemap \<Rightarrow> bldg_about \<Rightarrow> (string \<times> windowd list) list
    \<Rightarrow> error + bldg_about" where
  "town_house_check sidemap about hpxmlwindows =
     (if about_shape about = ''town_house'' then
        (case about_town_house_walls about of
           None \<Rightarrow> Inl KeyError
         | Some thw \<Rightarrow>
             if windows_are_on_shared_walls sidemap thw hpxmlwindows then
               (if thw = ''back_right_front'' then
                  (if windows_are_on_shared_walls sidemap ''back_front_left'' hpxmlwindows
                   then Inl (TranslationError ''The house has windows on shared walls.'')
                   else Inr (about\<lparr>about_town_house_walls := Some ''back_front_left''\<rparr>))
                else Inl (TranslationError ''The house has windows on shared walls.''))
             else Inr about)
      else Inr about)"

record zone_window =
  window_area :: rat
  window_method :: string
  window_code :: "string option"
  window_u_value :: "rat option"
  window_shgc :: "rat option"

text \<open>The running dict \<^verbatim>\<open>window_code_areas\<close> of the windows of a side.\<close>

fun window_code_areas :: "windowd list \<Rightarrow> (string \<times> rat) list \<Rightarrow> error + (string \<times> rat) list" where
  "window_code_areas [] d = Inr d"
| "window_code_areas (w # ws) d =
     (case wnd_window_code w of
        None \<Rightarrow> Inl AssertionError
      | Some c \<Rightarrow> window_code_areas ws (dict_accum d c (wnd_area w)))"

text \<open>
  The windows of one side: none gives the fixed minimal window; windows that have both a
  U-value and an SHGC give their area-weighted means (\<open>opt_val\<close> reads a value that is
  present there); otherwise the code of greatest area. The total area counts every window
  of the side.
\<close>

definition opt_val :: "rat option \<Rightarrow> rat" where
  "opt_val x = (case x of None \<Rightarrow> 0 | Some v \<Rightarrow> v)"

definition custom_windows :: "windowd list \<Rightarrow> windowd list" where
  "custom_windows windows = filter (\<lambda>w. wnd_uvalue w \<noteq> None \<and> wnd_shgc w \<noteq> None) windows"

definition zone_window_of :: "windowd list \<Rightarrow> error + zone_window" where
  "zone_window_of windows =
     (if length windows = 0
      then Inr \<lparr>window_area = 0, window_method = ''code'', window_code = Some ''scna'',
                window_u_value = None, window_shgc = None\<rparr>
      else if length (custom_windows windows) > 0
      then (if sum_list (map wnd_area (custom_windows windows)) = 0 then Inl ZeroDivisionError
            else Inr \<lparr>window_area = sum_list (map wnd_area windows),
                      window_method = ''custom'', window_code = None,
                      window_u_value =
                        Some (sum_list (map (\<lambda>w. opt_val (wnd_uvalue w) * wnd_area w)
                                 (custom_windows windows))
                              / sum_list (map wnd_area (custom_windows windows))),
                      window_shgc =
                        Some (sum_list (map (\<lambda>w. opt_val (wnd_shgc w) * wnd_area w)
                                 (custom_windows windows))
                              / sum_list (map wnd_area (custom_windows windows)))\<rparr>)
      else ebind (window_code_areas windows []) (\<lambda>areas.
           ebind (dict_argmax areas) (\<lambda>code.
           Inr \<lparr>window_area = sum_list (map wnd_area windows),
                window_method = ''code'', window_code = Some code,
                window_u_value = None, window_shgc = None\<rparr>)))"

record heswall =
  hw_side :: string
  wall_assembly_code :: string
  hw_zone_window :: "zone_window option"

text \<open>
  \<^verbatim>\<open>_get_building_zone_wall(b, bldg_about)\<close>, from the walls and windows of the building
  in document order. Its first part, up to the check for town houses, gives the wall
  assembly codes of the sides (in the order of \<^verbatim>\<open>sidemap.values()\<close>) and \<^verbatim>\<open>hpxmlwindows\<close>.
  The result of the function is \<^verbatim>\<open>zone_wall\<close> together with \<^verbatim>\<open>bldg_about\<close>, which the
  function may have changed.
\<close>

definition walls_and_windows :: "sidemap \<Rightarrow> hpxml_wall list \<Rightarrow> hpxml_window list
    \<Rightarrow> error + (string list \<times> (string \<times> windowd list) list)" where
  "walls_and_windows sidemap walls windows =
     ebind (efold (assign_wall sidemap) walls (hpxmlwalls_init sidemap)) (\<lambda>hpxmlwalls0.
     ebind (spread_noside sidemap hpxmlwalls0) (\<lambda>hpxmlwalls.
     ebind (emap (\<lambda>side. ebind (dict_get hpxmlwalls side) (hescore_wall_code side))
              (map snd sidemap)) (\<lambda>codes.
     ebind (efold (assign_window sidemap hpxmlwalls) windows (hpxmlwindows_init sidemap))
       (\<lambda>hpxmlwindows.
     Inr (codes, hpxmlwindows)))))"

definition get_building_zone_wall :: "sidemap \<Rightarrow> hpxml_wall list \<Rightarrow> hpxml_window list
    \<Rightarrow> bldg_about \<Rightarrow> error + (heswall list \<times> bldg_about)" where
  "get_building_zone_wall sidemap walls windows about =
     ebind (walls_and_windows sidemap walls windows) (\<lambda>(codes, hpxmlwindows).
     ebind (town_house_check sidemap about hpxmlwindows) (\<lambda>about'.
     ebind (emap (\<lambda>kv. zone_window_of (snd kv)) hpxmlwindows) (\<lambda>zone_windows.
     Inr (map (\<lambda>(side, code).
                 \<lparr>hw_side = side, wall_assembly_code = code,
                  hw_zone_window = map_of (zip (map fst hpxmlwindows) zone_windows) side\<rparr>)
            (zip (map snd sidemap) codes),
          about'))))"

section \<open>Duct consolidation\<close>

record hpxml_duct =
  duct_fraction_area :: "rat option"
  duct_location :: "string option"
  duct_has_ins :: bool

record hpxml_airdistsys =
  ads_issealed :: bool
  ads_ducts :: "hpxml_duct list"
  ads_cfaserved :: "rat option"

definition duct_location_map :: "(string \<times> string option) list" where
  "duct_location_map =
     [(''conditioned space'', Some ''cond_space''),
      (''unconditioned space'', None),
      (''unconditioned basement'', Some ''uncond_basement''),
      (''unvented crawlspace'', Some ''unvented_crawl''),
      (''vented crawlspace'', Some ''vented_crawl''),
      (''crawlspace'', None),
      (''unconditioned attic'', Some ''uncond_attic''),
      (''interstitial space'', None),
      (''garage'', None),
      (''outside'', None)]"

text \<open>
  One duct of a system: its fraction is added to the system's share of its location, and
  the location is insulated if the duct is (or an earlier duct there was).
\<close>

definition duct_step :: "hpxml_duct \<Rightarrow> (string \<times> rat) list \<times> (string \<times> bool) list
    \<Rightarrow> error + ((string \<times> rat) list \<times> (string \<times> bool) list)" where
  "duct_step duct st =
     (case duct_fraction_area duct of
        None \<Rightarrow> Inl TypeError
      | Some frac_duct_area \<Rightarrow>
          (case duct_location duct of
             None \<Rightarrow> Inl KeyError
           | Some hpxml_duct_location \<Rightarrow>
               ebind (dict_get duct_location_map hpxml_duct_location) (\<lambda>loc.
                 case loc of
                   None \<Rightarrow> Inl (TranslationError
                             (''No comparable duct location in HEScore: '' @ hpxml_duct_location))
                 | Some hescore_duct_location \<Rightarrow>
                     Inr (dict_accum (fst st) hescore_duct_location frac_duct_area,
                          (case map_of (snd st) hescore_duct_location of
                             None \<Rightarrow> dict_set (snd st) hescore_duct_location (duct_has_ins duct)
                           | Some old \<Rightarrow>
                               dict_set (snd st) hescore_duct_location
                                 (old \<or> duct_has_ins duct))))))"

text \<open>
  The state of the loop over the air distribution systems: the two flags, the list of
  the systems' shares, the insulation by location and the list of sealed flags.
\<close>

record duct_state =
  allhave_cfaserved :: bool
  allmissing_cfaserved :: bool
  airdistsystems_ductfracs :: "(string \<times> rat) list list"
  hescore_ductloc_has_ins :: "(string \<times> bool) list"
  airdistsys_issealed :: "bool list"

definition duct_state_init :: duct_state where
  "duct_state_init =
     \<lparr>allhave_cfaserved = True, allmissing_cfaserved = True, airdistsystems_ductfracs = [],
      hescore_ductloc_has_ins = [], airdistsys_issealed = []\<rparr>"

text \<open>
  One system: its ducts, the normalization of its shares to a total of 1 (a division by
  their sum for every location), and the scaling by the floor area served.
\<close>

definition airdistsys_step :: "hpxml_airdistsys \<Rightarrow> duct_state \<Rightarrow> error + duct_state" where
  "airdistsys_step sys st =
     ebind (efold duct_step (ads_ducts sys) ([], hescore_ductloc_has_ins st)) (\<lambda>(fracs, has_ins).
       if fracs \<noteq> [] \<and> sum_list (map snd fracs) = 0 then Inl ZeroDivisionError
       else
         (case ads_cfaserved sys of
            Some cfaserved \<Rightarrow>
              Inr (st\<lparr>allmissing_cfaserved := False,
                      airdistsystems_ductfracs := airdistsystems_ductfracs st
                        @ [map (\<lambda>(key, v). (key, v / sum_list (map snd fracs) * cfaserved)) fracs],
                      hescore_ductloc_has_ins := has_ins,
                      airdistsys_issealed := airdistsys_issealed st @ [ads_issealed sys]\<rparr>)
          | None \<Rightarrow>
              Inr (st\<lparr>allhave_cfaserved := False,
                      airdistsystems_ductfracs := airdistsystems_ductfracs st
                        @ [map (\<lambda>(key, v). (key, v / sum_list (map snd fracs))) fracs],
                      hescore_ductloc_has_ins := has_ins,
                      airdistsys_issealed := airdistsys_issealed st @ [ads_issealed sys]\<rparr>)))"

text \<open>
  The sum over the systems, by location: the shares, and the shares of sealed systems
  (\<^verbatim>\<open>value * float(issealed)\<close>).
\<close>

definition combine_ducts :: "((string \<times> rat) list \<times> bool) list
    \<Rightarrow> (string \<times> rat) list \<times> (string \<times> rat) list" where
  "combine_ducts systems =
     fold (\<lambda>(fracs, issealed) acc.
             fold (\<lambda>(key, v) (ductfracs, issealedfracs).
                     (dict_accum ductfracs key v,
                      dict_accum issealedfracs key (v * (if issealed then 1 else 0))))
               fracs acc)
       systems ([], [])"

text \<open>The value of a key that is known to be in the dict.\<close>

definition dict_val :: "('k \<times> rat) list \<Rightarrow> 'k \<Rightarrow> rat" where
  "dict_val d k = (case map_of d k of None \<Rightarrow> 0 | Some v \<Rightarrow> v)"

text \<open>
  \<^verbatim>\<open>sorted(ductfracs.keys(), key=lambda x: ductfracs[x], reverse=True)[0:3]\<close>. Python's
  sort is stable, also with \<^verbatim>\<open>reverse=True\<close>, as is \<open>sort_key\<close> on the negated key.
\<close>

definition top3locations_of :: "(string \<times> rat) list \<Rightarrow> string list" where
  "top3locations_of ductfracs = take 3 (sort_key (\<lambda>x. - dict_val ductfracs x) (map fst ductfracs))"

text \<open>Deleting every location that is not among the top three.\<close>

definition keep_locations :: "string list \<Rightarrow> (string \<times> 'v) list \<Rightarrow> (string \<times> 'v) list" where
  "keep_locations top3 d = filter (\<lambda>kv. fst kv \<in> set top3) d"

text \<open>\<^verbatim>\<open>bool(round(x / ductfracs[key]))\<close> for every location.\<close>

definition sealed_flags :: "(string \<times> rat) list \<Rightarrow> (string \<times> rat) list
    \<Rightarrow> error + (string \<times> bool) list" where
  "sealed_flags ductfracs issealedfracs =
     emap (\<lambda>(key, x). ebind (dict_get ductfracs key) (\<lambda>df.
             if df = 0 then Inl ZeroDivisionError else Inr (key, py_round (x / df) \<noteq> 0)))
       issealedfracs"

text \<open>\<^verbatim>\<open>int(round(x / normalization_denominator * 100))\<close> for every location.\<close>

definition percentages :: "(string \<times> rat) list \<Rightarrow> error + (string \<times> int) list" where
  "percentages ductfracs =
     (if ductfracs \<noteq> [] \<and> sum_list (map snd ductfracs) = 0 then Inl ZeroDivisionError
      else Inr (map (\<lambda>(key, x). (key, py_round (x / sum_list (map snd ductfracs) * 100)))
                  ductfracs))"

text \<open>
  \<^verbatim>\<open>if len(top3locations) > 0: ductfracs[top3locations[0]] += 100 - sum(ductfracs.values())\<close>
\<close>

definition adjust_largest :: "string list \<Rightarrow> (string \<times> int) list \<Rightarrow> error + (string \<times> int) list" where
  "adjust_largest top3 pct =
     (case top3 of
        [] \<Rightarrow> Inr pct
      | first # _ \<Rightarrow>
          ebind (dict_get pct first) (\<lambda>old.
          Inr (dict_set pct first (old + (100 - sum_list (map snd pct))))))"

record hvacd =
  hd_name :: string
  hd_location :: string
  hd_fraction :: int
  hd_insulated :: bool
  hd_sealed :: bool

definition duct_bucket :: "(string \<times> int) list \<Rightarrow> (string \<times> bool) list \<Rightarrow> (string \<times> bool) list
    \<Rightarrow> nat \<times> string \<Rightarrow> error + hvacd" where
  "duct_bucket ductfracs has_ins issealed il =
     ebind (dict_get ductfracs (snd il)) (\<lambda>fraction.
     ebind (dict_get has_ins (snd il)) (\<lambda>insulated.
     ebind (dict_get issealed (snd il)) (\<lambda>sealed.
     Inr \<lparr>hd_name = ''duct'' @ fmt_d (fst il), hd_location = snd il, hd_fraction = fraction,
          hd_insulated = insulated, hd_sealed = sealed\<rparr>)))"

text \<open>
  The second half of \<^verbatim>\<open>_get_systems_hvac_distribution\<close>, from the combined shares: the
  three greatest locations, their sealed flags and integer percentages, the correction of
  the greatest, and the buckets \<^verbatim>\<open>duct1\<close>, \<^verbatim>\<open>duct2\<close>, \<^verbatim>\<open>duct3\<close>.
\<close>

definition duct_buckets :: "(string \<times> rat) list \<Rightarrow> (string \<times> bool) list \<Rightarrow> (string \<times> rat) list
    \<Rightarrow> error + hvacd list" where
  "duct_buckets ductfracs has_ins issealedfracs =
     ebind (sealed_flags (keep_locations (top3locations_of ductfracs) ductfracs)
              (keep_locations (top3locations_of ductfracs) issealedfracs)) (\<lambda>issealed.
     ebind (percentages (keep_locations (top3locations_of ductfracs) ductfracs)) (\<lambda>pct.
     ebind (adjust_largest (top3locations_of ductfracs) pct) (\<lambda>pct'.
     emap (duct_bucket pct' (keep_locations (top3locations_of ductfracs) has_ins) issealed)
       (zip [1 ..< Suc (length (top3locations_of ductfracs))] (top3locations_of ductfracs)))))"

definition get_systems_hvac_distribution :: "hpxml_airdistsys list \<Rightarrow> error + hvacd list" where
  "get_systems_hvac_distribution systems =
     ebind (efold airdistsys_step systems duct_state_init) (\<lambda>st.
       if (length (airdistsystems_ductfracs st) > 1
             \<and> (allhave_cfaserved st \<or> allmissing_cfaserved st))
          \<or> length (airdistsystems_ductfracs st) \<le> 1
       then
         (case combine_ducts (zip (airdistsystems_ductfracs st) (airdistsys_issealed st)) of
            (ductfracs, issealedfracs) \<Rightarrow>
              duct_buckets ductfracs (hescore_ductloc_has_ins st) issealedfracs)
       else Inl (TranslationError
              ''All HVACDistribution elements need to have or NOT have the ConditionFloorAreaServed subelement.''))"

section \<open>Heating and cooling systems\<close>

text \<open>
  What the classifiers query of one element of the HVAC plant: the local name of its tag
  (\<^verbatim>\<open>HeatingSystem\<close>, \<^verbatim>\<open>HeatPump\<close> or \<^verbatim>\<open>CoolingSystem\<close>), its types and fuel, its
  efficiency entries as (units, value) pairs and its installation and model years, both
  in document order, and its capacities.
\<close>

record hvac_unit =
  hv_tag :: string
  hv_heat_pump_type :: "string option"
  hv_heating_fuel :: "string option"
  hv_heating_type :: string
  hv_cooling_type :: "string option"
  hv_heating_eff :: "(string \<times> rat) list"
  hv_cooling_eff :: "(string \<times> rat) list"
  hv_years :: "int list"
  hv_heating_capacity :: "rat option"
  hv_cooling_capacity :: "rat option"

text \<open>
  The dict a classifier returns. The cooling dict has no key \<^verbatim>\<open>fuel_primary\<close>
  (\<open>None\<close> here); \<^verbatim>\<open>efficiency_method\<close> can hold the value None; of \<^verbatim>\<open>efficiency\<close> and
  \<^verbatim>\<open>year\<close> at most one exists.
\<close>

record sysd =
  sd_fuel_primary :: "string option"
  sd_type :: string
  sd_efficiency_method :: "string option"
  sd_efficiency :: "rat option"
  sd_year :: "int option"
  sd_capacity :: "rat option"

definition endswith :: "string \<Rightarrow> string \<Rightarrow> bool" where
  "endswith s p = startswith (rev s) (rev p)"

definition heat_pump_type_map :: "(string \<times> string) list" where
  "heat_pump_type_map =
     [(''water-to-air'', ''gchp''), (''water-to-water'', ''gchp''), (''air-to-air'', ''heat_pump''),
      (''mini-split'', ''heat_pump''), (''ground-to-air'', ''gchp'')]"

definition fuel_type_mapping :: "(string \<times> string) list" where
  "fuel_type_mapping =
     [(''electricity'', ''electric''), (''renewable electricity'', ''electric''),
      (''natural gas'', ''natural_gas''), (''renewable natural gas'', ''natural_gas''),
      (''fuel oil'', ''fuel_oil''), (''fuel oil 1'', ''fuel_oil''), (''fuel oil 2'', ''fuel_oil''),
      (''fuel oil 4'', ''fuel_oil''), (''fuel oil 5/6'', ''fuel_oil''), (''propane'', ''lpg'')]"

definition heating_type_map :: "(string \<times> string) list" where
  "heating_type_map =
     [(''Furnace'', ''central_furnace''), (''WallFurnace'', ''wall_furnace''),
      (''Boiler'', ''boiler''), (''ElectricResistance'', ''baseboard'')]"

definition heating_eff_units :: "(string \<times> string) list" where
  "heating_eff_units =
     [(''heat_pump'', ''HSPF''), (''central_furnace'', ''AFUE''), (''wall_furnace'', ''AFUE''),
      (''boiler'', ''AFUE''), (''gchp'', ''COP'')]"

definition cooling_type_map :: "(string \<times> string) list" where
  "cooling_type_map =
     [(''central air conditioning'', ''split_dx''), (''room air conditioner'', ''packaged_dx''),
      (''mini-split'', ''split_dx'')]"

definition cooling_eff_units :: "(string \<times> string option) list" where
  "cooling_eff_units =
     [(''split_dx'', Some ''SEER''), (''packaged_dx'', Some ''EER''), (''heat_pump'', Some ''SEER''),
      (''gchp'', Some ''EER''), (''dec'', None), (''iec'', None), (''idec'', None)]"

text \<open>A dict lookup with a key that may be None (which is no key of these tables).\<close>

definition dict_get_opt :: "(string \<times> 'v) list \<Rightarrow> string option \<Rightarrow> error + 'v" where
  "dict_get_opt d k = (case k of None \<Rightarrow> Inl KeyError | Some s \<Rightarrow> dict_get d s)"

text \<open>The values of the efficiency entries that have the required units.\<close>

definition eff_els :: "(string \<times> rat) list \<Rightarrow> string \<Rightarrow> rat list" where
  "eff_els effs eff_units = map snd (filter (\<lambda>uv. fst uv = eff_units) effs)"

text \<open>\<^verbatim>\<open>int(xpath('(h:YearInstalled|h:ModelYear)/text()')[0])\<close>\<close>

definition first_year :: "int list \<Rightarrow> error + int" where
  "first_year ys = (case ys of [] \<Rightarrow> Inl IndexError | y # _ \<Rightarrow> Inr y)"

text \<open>
  The first part of \<^verbatim>\<open>get_heating_system_type\<close>: fuel and type. Only an unmapped
  \<^verbatim>\<open>HeatingSystemType\<close> is turned into a translation error; the other lookups raise
  KeyError.
\<close>

definition heating_fuel_and_type :: "hvac_unit \<Rightarrow> error + (string \<times> string)" where
  "heating_fuel_and_type u =
     (if endswith (hv_tag u) ''HeatPump'' then
        (case hv_heat_pump_type u of
           None \<Rightarrow> Inr (''electric'', ''heat_pump'')
         | Some heat_pump_type \<Rightarrow>
             ebind (dict_get heat_pump_type_map heat_pump_type) (\<lambda>t. Inr (''electric'', t)))
      else if \<not> endswith (hv_tag u) ''HeatingSystem'' then Inl AssertionError
      else
        ebind (dict_get_opt fuel_type_mapping (hv_heating_fuel u)) (\<lambda>fuel.
          case map_of heating_type_map (hv_heating_type u) of
            None \<Rightarrow> Inl (TranslationError
                      (''HEScore does not support the HPXML HeatingSystemType ''
                       @ hv_heating_type u))
          | Some t \<Rightarrow> Inr (fuel, t)))"

definition get_heating_system_type :: "hvac_unit \<Rightarrow> error + sysd" where
  "get_heating_system_type u =
     ebind (heating_fuel_and_type u) (\<lambda>(fuel, t).
       if \<not> ((t = ''furnace'' \<or> t = ''baseboard'') \<and> fuel = ''electric'') then
         ebind (dict_get heating_eff_units t) (\<lambda>eff_units.
           case eff_els (hv_heating_eff u) eff_units of
             [] \<Rightarrow>
               ebind (first_year (hv_years u)) (\<lambda>y.
                 Inr \<lparr>sd_fuel_primary = Some fuel, sd_type = t,
                      sd_efficiency_method = Some ''shipment_weighted'', sd_efficiency = None,
                      sd_year = Some y, sd_capacity = hv_heating_capacity u\<rparr>)
           | e # _ \<Rightarrow>
               Inr \<lparr>sd_fuel_primary = Some fuel, sd_type = t,
                    sd_efficiency_method = Some ''user'', sd_efficiency = Some e,
                    sd_year = None, sd_capacity = hv_heating_capacity u\<rparr>)
       else
         Inr \<lparr>sd_fuel_primary = Some fuel, sd_type = t, sd_efficiency_method = None,
              sd_efficiency = None, sd_year = None, sd_capacity = hv_heating_capacity u\<rparr>)"

text \<open>
  \<^verbatim>\<open>get_cooling_system_type\<close>: every lookup is a plain dict lookup, so an unmapped type
  raises KeyError; the function raises no translation error.
\<close>

definition cooling_type :: "hvac_unit \<Rightarrow> error + string" where
  "cooling_type u =
     (if endswith (hv_tag u) ''HeatPump'' then
        (case hv_heat_pump_type u of
           None \<Rightarrow> Inr ''heat_pump''
         | Some heat_pump_type \<Rightarrow> dict_get heat_pump_type_map heat_pump_type)
      else if \<not> endswith (hv_tag u) ''CoolingSystem'' then Inl AssertionError
      else dict_get_opt cooling_type_map (hv_cooling_type u))"

definition get_cooling_system_type :: "hvac_unit \<Rightarrow> error + sysd" where
  "get_cooling_system_type u =
     ebind (cooling_type u) (\<lambda>t.
     ebind (dict_get cooling_eff_units t) (\<lambda>eff_units.
       case (case eff_units of None \<Rightarrow> [] | Some un \<Rightarrow> eff_els (hv_cooling_eff u) un) of
         [] \<Rightarrow>
           ebind (first_year (hv_years u)) (\<lambda>y.
             Inr \<lparr>sd_fuel_primary = None, sd_type = t,
                  sd_efficiency_method = Some ''shipment_weighted'', sd_efficiency = None,
                  sd_year = Some y, sd_capacity = hv_cooling_capacity u\<rparr>)
       | e # _ \<Rightarrow>
           Inr \<lparr>sd_fuel_primary = None, sd_type = t,
                sd_efficiency_method = Some ''user'', sd_efficiency = Some e,
                sd_year = None, sd_capacity = hv_cooling_capacity u\<rparr>))"

text \<open>
  The loop over the units when no primary system is designated. A translation error of
  the classifier is caught and remembered (in Python 2 the name \<^verbatim>\<open>ex\<close> stays bound to
  the last one caught); any other exception leaves the loop at once.
\<close>

fun classify_all :: "(hvac_unit \<Rightarrow> error + sysd) \<Rightarrow> hvac_unit list \<Rightarrow> sysd list \<Rightarrow> error option
    \<Rightarrow> error + (sysd list \<times> error option)" where
  "classify_all classify [] systems ex = Inr (systems, ex)"
| "classify_all classify (u # us) systems ex =
     (case classify u of
        Inr d \<Rightarrow> classify_all classify us (systems @ [d]) ex
      | Inl (TranslationError m) \<Rightarrow> classify_all classify us systems (Some (TranslationError m))
      | Inl e \<Rightarrow> Inl e)"

text \<open>
  The systems to combine: the primary system alone, or all the units that classify;
  \<^verbatim>\<open>if has_translation_err and len(systems) == 0: raise ex\<close>.
\<close>

definition systems_to_combine :: "(hvac_unit \<Rightarrow> error + sysd) \<Rightarrow> hvac_unit option
    \<Rightarrow> hvac_unit list \<Rightarrow> error + sysd list" where
  "systems_to_combine classify primary units =
     (case primary of
        Some p \<Rightarrow> ebind (classify p) (\<lambda>d. Inr [d])
      | None \<Rightarrow>
          ebind (classify_all classify units [] None) (\<lambda>(systems, ex).
            case ex of
              Some e \<Rightarrow> (if length systems = 0 then Inl e else Inr systems)
            | None \<Rightarrow> Inr systems))"

text \<open>A single system without a capacity gets the capacity 1.0.\<close>

definition default_capacity :: "string \<Rightarrow> sysd list \<Rightarrow> error + sysd list" where
  "default_capacity kind systems =
     (if None \<in> set (map sd_capacity systems) then
        (case systems of
           [s] \<Rightarrow> Inr [s\<lparr>sd_capacity := Some 1\<rparr>]
         | _ \<Rightarrow> Inl (TranslationError
                  (''If a primary '' @ kind @ '' system is not defined, each '' @ kind
                   @ '' system must have a capacity'')))
      else Inr systems)"

text \<open>
  A group of systems: its key (type, fuel, efficiency method) with the running
  \<^verbatim>\<open>totalcapacity\<close>, \<^verbatim>\<open>n\<close> and \<^verbatim>\<open>sum\<close>.
\<close>

record combsys =
  cs_type :: string
  cs_fuel_primary :: "string option"
  cs_efficiency_method :: "string option"
  cs_totalcapacity :: rat
  cs_n :: nat
  cs_sum :: rat

type_synonym group_key = "string \<times> string option \<times> string option"

definition group_key_of :: "sysd \<Rightarrow> group_key" where
  "group_key_of d = (sd_type d, sd_fuel_primary d, sd_efficiency_method d)"

text \<open>
  \<^verbatim>\<open>sysd[eff_method_map[method]]\<close>: the efficiency of a \<^verbatim>\<open>'user'\<close> system, the year of a
  \<^verbatim>\<open>'shipment_weighted'\<close> one.
\<close>

definition weighted_value :: "sysd \<Rightarrow> string option \<Rightarrow> error + rat" where
  "weighted_value d method =
     (if method = Some ''user''
      then (case sd_efficiency d of None \<Rightarrow> Inl KeyError | Some e \<Rightarrow> Inr e)
      else if method = Some ''shipment_weighted''
      then (case sd_year d of None \<Rightarrow> Inl KeyError | Some y \<Rightarrow> Inr (of_int y))
      else Inl KeyError)"

text \<open>
  One turn of the grouping loop. For heating the sum is skipped when the method is None
  (\<open>guard\<close>); for cooling there is no such test.
\<close>

definition group_step :: "bool \<Rightarrow> sysd \<Rightarrow> (group_key \<times> combsys) list
    \<Rightarrow> error + (group_key \<times> combsys) list" where
  "group_step guard d groups =
     (case sd_capacity d of
        None \<Rightarrow> Inl TypeError
      | Some capacity \<Rightarrow>
          (case (case map_of groups (group_key_of d) of
                   Some c \<Rightarrow> c
                 | None \<Rightarrow> \<lparr>cs_type = sd_type d, cs_fuel_primary = sd_fuel_primary d,
                             cs_efficiency_method = sd_efficiency_method d,
                             cs_totalcapacity = 0, cs_n = 0, cs_sum = 0\<rparr>) of
             comb \<Rightarrow>
               (if guard \<and> cs_efficiency_method comb = None
                then Inr (dict_set groups (group_key_of d)
                            (comb\<lparr>cs_totalcapacity := cs_totalcapacity comb + capacity,
                                  cs_n := cs_n comb + 1\<rparr>))
                else ebind (weighted_value d (cs_efficiency_method comb)) (\<lambda>v.
                     Inr (dict_set groups (group_key_of d)
                            (comb\<lparr>cs_totalcapacity := cs_totalcapacity comb + capacity,
                                  cs_sum := cs_sum comb + v * capacity,
                                  cs_n := cs_n comb + 1\<rparr>))))))"

text \<open>
  A group after the second loop: \<^verbatim>\<open>sum\<close> and \<^verbatim>\<open>n\<close> are deleted, \<^verbatim>\<open>efficiency\<close> or
  \<^verbatim>\<open>year\<close> is set, and for a method None the key \<^verbatim>\<open>efficiency_method\<close> is deleted
  (\<open>fs_has_method\<close> tells whether the key is there).
\<close>

record finalsys =
  fs_type :: string
  fs_fuel_primary :: "string option"
  fs_has_method :: bool
  fs_efficiency_method :: "string option"
  fs_efficiency :: "rat option"
  fs_year :: "int option"
  fs_totalcapacity :: rat

definition finalsys_of :: "combsys \<Rightarrow> bool \<Rightarrow> rat option \<Rightarrow> int option \<Rightarrow> finalsys" where
  "finalsys_of c has_method eff yr =
     \<lparr>fs_type = cs_type c, fs_fuel_primary = cs_fuel_primary c, fs_has_method = has_method,
      fs_efficiency_method = cs_efficiency_method c, fs_efficiency = eff, fs_year = yr,
      fs_totalcapacity = cs_totalcapacity c\<rparr>"

definition finish_heating_group :: "combsys \<Rightarrow> error + finalsys" where
  "finish_heating_group c =
     (if cs_efficiency_method c = Some ''user'' then
        (if cs_totalcapacity c = 0 then Inl ZeroDivisionError
         else Inr (finalsys_of c True
                (Some (py_round_nd (cs_sum c / cs_totalcapacity c)
                         (if cs_type c = ''heat_pump'' \<or> cs_type c = ''gchp'' then 1 else 2)))
                None))
      else if cs_efficiency_method c = Some ''shipment_weighted'' then
        (if cs_totalcapacity c = 0 then Inl ZeroDivisionError
         else Inr (finalsys_of c True None (Some (py_round (cs_sum c / cs_totalcapacity c)))))
      else if cs_efficiency_method c \<noteq> None then Inl AssertionError
      else Inr (finalsys_of c False None None))"

definition finish_cooling_group :: "combsys \<Rightarrow> error + finalsys" where
  "finish_cooling_group c =
     (if cs_efficiency_method c = Some ''user'' then
        (if cs_totalcapacity c = 0 then Inl ZeroDivisionError
         else Inr (finalsys_of c True
                (Some (py_round_nd (cs_sum c / cs_totalcapacity c) 1)) None))
      else if cs_efficiency_method c \<noteq> Some ''shipment_weighted'' then Inl AssertionError
      else
        (if cs_totalcapacity c = 0 then Inl ZeroDivisionError
         else Inr (finalsys_of c True None (Some (py_round (cs_sum c / cs_totalcapacity c))))))"

text \<open>
  The output dict, as the list of its keys and values: the group of greatest total
  capacity without its \<^verbatim>\<open>totalcapacity\<close>, the year raised to 1970; reading
  \<^verbatim>\<open>efficiency_method\<close> raises KeyError when the key has been deleted. Without any group
  the dict is \<^verbatim>\<open>{'type': 'none'}\<close>.
\<close>

definition opt_entry :: "string \<Rightarrow> 'a option \<Rightarrow> ('a \<Rightarrow> pyval) \<Rightarrow> (string \<times> pyval) list" where
  "opt_entry key v f = (case v of None \<Rightarrow> [] | Some x \<Rightarrow> [(key, f x)])"

definition system_dict :: "finalsys \<Rightarrow> error + (string \<times> pyval) list" where
  "system_dict s =
     (if \<not> fs_has_method s then Inl KeyError
      else Inr ([(''type'', PStr (fs_type s))]
                @ opt_entry ''fuel_primary'' (fs_fuel_primary s) PStr
                @ [(''efficiency_method'',
                    (case fs_efficiency_method s of None \<Rightarrow> PNone | Some m \<Rightarrow> PStr m))]
                @ opt_entry ''efficiency'' (fs_efficiency s) PFloat
                @ opt_entry ''year''
                    (if fs_efficiency_method s = Some ''shipment_weighted''
                     then map_option (\<lambda>y. if y < 1970 then 1970 else y) (fs_year s)
                     else fs_year s) PInt))"

definition select_system :: "finalsys list \<Rightarrow> error + (string \<times> pyval) list" where
  "select_system groups =
     (if length groups > 0
      then ebind (py_max_key fs_totalcapacity groups) system_dict
      else Inr [(''type'', PStr ''none'')])"

definition get_systems_heating :: "hvac_unit option \<Rightarrow> hvac_unit list
    \<Rightarrow> error + (string \<times> pyval) list" where
  "get_systems_heating primaryhtgsys units =
     ebind (systems_to_combine get_heating_system_type primaryhtgsys units) (\<lambda>htgsystems0.
     ebind (default_capacity ''heating'' htgsystems0) (\<lambda>htgsystems.
     ebind (efold (group_step True) htgsystems []) (\<lambda>htgsys_by_capacity.
     ebind (emap finish_heating_group (map snd htgsys_by_capacity)) select_system)))"

definition get_systems_cooling :: "hvac_unit option \<Rightarrow> hvac_unit list
    \<Rightarrow> error + (string \<times> pyval) list" where
  "get_systems_cooling primaryclgsys units =
     ebind (systems_to_combine get_cooling_system_type primaryclgsys units) (\<lambda>clgsystems0.
     ebind (default_capacity ''cooling'' clgsystems0) (\<lambda>clgsystems.
     ebind (efold (group_step False) clgsystems []) (\<lambda>clgsys_by_capacity.
     ebind (emap finish_cooling_group (map snd clgsys_by_capacity)) select_system)))"

text \<open>
  For the statement of the tolerance of the loop: the dicts of the units that classify,
  the translation errors of those that do not, both in document order, and whether a
  unit either classifies or raises a translation error.
\<close>

definition classified :: "(hvac_unit \<Rightarrow> error + sysd) \<Rightarrow> hvac_unit list \<Rightarrow> sysd list" where
  "classified classify us =
     concat (map (\<lambda>u. case classify u of Inr d \<Rightarrow> [d] | Inl _ \<Rightarrow> []) us)"

definition translation_failures :: "(hvac_unit \<Rightarrow> error + sysd) \<Rightarrow> hvac_unit list \<Rightarrow> error list" where
  "translation_failures classify us =
     concat (map (\<lambda>u. case classify u of
                         Inl (TranslationError m) \<Rightarrow> [TranslationError m]
                       | _ \<Rightarrow> []) us)"

definition tolerable :: "(hvac_unit \<Rightarrow> error + sysd) \<Rightarrow> hvac_unit \<Rightarrow> bool" where
  "tolerable classify u =
     (case classify u of Inr _ \<Rightarrow> True | Inl (TranslationError _) \<Rightarrow> True | Inl _ \<Rightarrow> False)"

text \<open>Example units: gas furnaces, a portable heater, and air conditioners.\<close>

definition example_furnace :: "rat \<Rightarrow> rat \<Rightarrow> hvac_unit" where
  "example_furnace afue capacity =
     \<lparr>hv_tag = ''HeatingSystem'', hv_heat_pump_type = None,
      hv_heating_fuel = Some ''natural gas'', hv_heating_type = ''Furnace'',
      hv_cooling_type = None, hv_heating_eff = [(''AFUE'', afue)], hv_cooling_eff = [],
      hv_years = [], hv_heating_capacity = Some capacity, hv_cooling_capacity = None\<rparr>"

definition example_portable_heater :: hvac_unit where
  "example_portable_heater =
     \<lparr>hv_tag = ''HeatingSystem'', hv_heat_pump_type = None,
      hv_heating_fuel = Some ''electricity'', hv_heating_type = ''PortableHeater'',
      hv_cooling_type = None, hv_heating_eff = [], hv_cooling_eff = [],
      hv_years = [2005], hv_heating_capacity = Some 5000, hv_cooling_capacity = None\<rparr>"

definition example_air_conditioner :: "string \<Rightarrow> hvac_unit" where
  "example_air_conditioner cooling_system_type =
     \<lparr>hv_tag = ''CoolingSystem'', hv_heat_pump_type = None, hv_heating_fuel = None,
      hv_heating_type = [], hv_cooling_type = Some cooling_system_type, hv_heating_eff = [],
      hv_cooling_eff = [(''SEER'', 13)], hv_years = [2005], hv_heating_capacity = None,
      hv_cooling_capacity = Some 36000\<rparr>"

section \<open>Roof and attic zones\<close>

record hpxml_roof =
  roof_sysid :: string
  roof_color :: "string option"
  roof_type :: "string option"
  roof_radiant_barrier :: bool

text \<open>
  An attic: its id, the id of the roof it is attached to, the number its area text
  denotes, its type, whether its roof insulation has a rigid continuous layer of positive
  R-value, and the two sums of nominal R-values that the path queries compute, which are
  doubles (roof insulation without rigid continuous layers, and attic floor insulation).
\<close>

record hpxml_attic =
  attic_sysid :: string
  attic_attached_to_roof :: "string option"
  attic_area :: "rat option"
  attic_type :: "string option"
  attic_has_rigid_sheathing :: bool
  attic_roof_rvalue :: rat
  attic_floor_rvalue :: rat

definition rooftypemap :: "(string \<times> string option) list" where
  "rooftypemap =
     [(''cape cod'', Some ''cath_ceiling''),
      (''cathedral ceiling'', Some ''cath_ceiling''),
      (''flat roof'', Some ''cath_ceiling''),
      (''unvented attic'', Some ''vented_attic''),
      (''vented attic'', Some ''vented_attic''),
      (''venting unknown attic'', Some ''vented_attic''),
      (''other'', None)]"

definition attic_floor_rvalues :: "nat list" where
  "attic_floor_rvalues = [0, 3, 6, 9, 11, 19, 21, 25, 30, 38, 44, 49, 60]"

definition roof_center_of_cavity_rvalues :: "(string \<times> (string \<times> (nat \<times> rat) list) list) list" where
  "roof_center_of_cavity_rvalues =
     [(''wf'',
        [(''co'', zip [0, 11, 13, 15, 19, 21] [2.7, 13.6, 15.6, 17.6, 21.6, 23.6]),
         (''wo'', zip [0, 11, 13, 15, 19, 21, 27] [3.2, 14.1, 16.1, 18.1, 22.1, 24.1, 30.1]),
         (''rc'', zip [0, 11, 13, 15, 19, 21, 27] [2.2, 13.2, 15.2, 17.2, 21.2, 23.2, 29.2]),
         (''lc'', zip [0, 11, 13, 15, 19, 21, 27] [2.3, 13.2, 15.2, 17.2, 21.2, 23.2, 29.2]),
         (''tg'', zip [0, 11, 13, 15, 19, 21, 27] [2.3, 13.2, 15.2, 17.2, 21.2, 23.2, 29.2])]),
      (''rb'',
        [(''co'', [(0, 5)]), (''wo'', [(0, 5.5)]), (''rc'', [(0, 4.5)]), (''lc'', [(0, 4.6)]),
         (''tg'', [(0, 4.6)])]),
      (''ps'',
        [(''co'', zip [0, 11, 13, 15] [6.8, 17.8, 19.8, 21.8]),
         (''wo'', zip [0, 11, 13, 15, 19, 21] [7.3, 18.3, 20.3, 22.3, 26.3, 28.3]),
         (''rc'', zip [0, 11, 13, 15, 19, 21] [6.4, 17.4, 19.4, 21.4, 25.4, 27.4]),
         (''lc'', zip [0, 11, 13, 15, 19, 21] [6.4, 17.4, 19.4, 21.4, 25.4, 27.4]),
         (''tg'', zip [0, 11, 13, 15, 19, 21] [6.4, 17.4, 19.4, 21.4, 25.4, 27.4])])]"

definition roof_coc_table :: "string \<Rightarrow> string \<Rightarrow> error + (nat \<times> rat) list" where
  "roof_coc_table roofconstype extfinish =
     ebind (dict_get roof_center_of_cavity_rvalues roofconstype) (\<lambda>by_finish.
     dict_get by_finish extfinish)"

definition roofcolor_map :: "(string \<times> string) list" where
  "roofcolor_map =
     [(''light'', ''light''), (''medium'', ''medium''), (''dark'', ''dark''),
      (''reflective'', ''white'')]"

definition extfinish_map :: "(string \<times> string option) list" where
  "extfinish_map =
     [(''shingles'', Some ''co''),
      (''slate or tile shingles'', Some ''lc''),
      (''wood shingles or shakes'', Some ''wo''),
      (''asphalt or fiberglass shingles'', Some ''co''),
      (''metal surfacing'', Some ''co''),
      (''expanded polystyrene sheathing'', None),
      (''plastic/rubber/synthetic sheeting'', Some ''tg''),
      (''concrete'', Some ''lc''),
      (''cool roof'', None),
      (''green roof'', None),
      (''no one major type'', None),
      (''other'', None)]"

text \<open>
  The dict of one attic (or of one group of attics): the ids of its roofs, its area, and
  the categories and center-of-cavity values that are combined.
\<close>

record atticd =
  ad_roofids :: "string list"
  ad_roof_area :: rat
  ad_rooftype :: string
  ad_roofcolor :: string
  ad_extfinish :: string
  ad_roofconstype :: string
  ad_roof_coc_rvalue :: rat
  ad_attic_floor_coc_rvalue :: rat

text \<open>The roof of an attic: the roof of the id it names, else the only roof there is.\<close>

definition attic_roof :: "hpxml_roof list \<Rightarrow> hpxml_attic \<Rightarrow> error + hpxml_roof" where
  "attic_roof roofs attic =
     (case (case attic_attached_to_roof attic of
              None \<Rightarrow> None
            | Some roofid \<Rightarrow> find (\<lambda>r. roof_sysid r = roofid) roofs) of
        Some roof \<Rightarrow> Inr roof
      | None \<Rightarrow>
          (case roofs of
             [roof] \<Rightarrow> Inr roof
           | _ \<Rightarrow> Inl (TranslationError
                    (''Attic '' @ attic_sysid attic
                     @ '' does not have a roof associated with it.''))))"

definition attic_roof_area :: "nat \<Rightarrow> nat \<Rightarrow> int \<Rightarrow> hpxml_attic \<Rightarrow> error + rat" where
  "attic_roof_area n_attics n_roofs footprint_area attic =
     (case attic_area attic of
        Some a \<Rightarrow> Inr (round_to_double a)
      | None \<Rightarrow>
          (if n_attics = 1 \<and> n_roofs = 1 then Inr (of_int footprint_area)
           else Inl (TranslationError
                  ''If there are more than one Attic elements, each needs an area.'')))"

definition attic_rooftype :: "hpxml_attic \<Rightarrow> error + string" where
  "attic_rooftype attic =
     ebind (dict_get_opt rooftypemap (attic_type attic)) (\<lambda>rooftype.
       case rooftype of
         None \<Rightarrow> Inl (TranslationError
                   (''Attic '' @ attic_sysid attic @ '': Cannot translate HPXML AtticType ''
                    @ fmt_s (attic_type attic) @ '' to HEScore rooftype.''))
       | Some t \<Rightarrow> Inr t)"

definition attic_roofcolor :: "hpxml_attic \<Rightarrow> hpxml_roof \<Rightarrow> error + string" where
  "attic_roofcolor attic roof =
     (case dict_get_opt roofcolor_map (roof_color roof) of
        Inl _ \<Rightarrow> Inl (TranslationError
                   (''Attic '' @ attic_sysid attic @ '': Invalid or missing RoofColor''))
      | Inr c \<Rightarrow> Inr c)"

definition attic_extfinish :: "hpxml_attic \<Rightarrow> hpxml_roof \<Rightarrow> error + string" where
  "attic_extfinish attic roof =
     (case dict_get_opt extfinish_map (roof_type roof) of
        Inr (Some f) \<Rightarrow> Inr f
      | _ \<Rightarrow> Inl (TranslationError
                 (''Attic '' @ attic_sysid attic
                  @ '': HEScore does not have an analogy to the HPXML roof type: ''
                  @ fmt_s (roof_type roof))))"

definition attic_roofconstype :: "hpxml_attic \<Rightarrow> hpxml_roof \<Rightarrow> string" where
  "attic_roofconstype attic roof =
     (if roof_radiant_barrier roof then ''rb''
      else if attic_has_rigid_sheathing attic then ''ps''
      else ''wf'')"

text \<open>The body of the loop over the attics.\<close>

definition attic_dict :: "hpxml_roof list \<Rightarrow> nat \<Rightarrow> int \<Rightarrow> hpxml_attic \<Rightarrow> error + atticd" where
  "attic_dict roofs n_attics footprint_area attic =
     ebind (attic_roof roofs attic) (\<lambda>roof.
     ebind (attic_roof_area n_attics (length roofs) footprint_area attic) (\<lambda>area.
     ebind (attic_rooftype attic) (\<lambda>rooftype.
     ebind (attic_roofcolor attic roof) (\<lambda>roofcolor.
     ebind (attic_extfinish attic roof) (\<lambda>extfinish.
     ebind (roof_coc_table (attic_roofconstype attic roof) extfinish) (\<lambda>tab.
     ebind (py_min_key (\<lambda>x. \<bar>float_sub (of_nat (fst x)) (attic_roof_rvalue attic)\<bar>) tab)
       (\<lambda>nearest.
     ebind (py_min_key (\<lambda>x. \<bar>float_sub (of_nat x) (attic_floor_rvalue attic)\<bar>)
              attic_floor_rvalues) (\<lambda>floor_nearest.
     Inr \<lparr>ad_roofids = [roof_sysid roof], ad_roof_area = area, ad_rooftype = rooftype,
          ad_roofcolor = roofcolor, ad_extfinish = extfinish,
          ad_roofconstype = attic_roofconstype attic roof,
          ad_roof_coc_rvalue = round_to_double (snd nearest),
          ad_attic_floor_coc_rvalue = float_add (of_nat floor_nearest) (1 / 2)\<rparr>))))))))"

text \<open>
  \<^verbatim>\<open>attics_by_rooftype\<close>: the attics of each roof type, in their order; a new roof type
  gets a new key.
\<close>

definition attics_by_rooftype :: "atticd list \<Rightarrow> (string \<times> atticd list) list" where
  "attics_by_rooftype atticds =
     fold (\<lambda>a d. case map_of d (ad_rooftype a) of
                    Some l \<Rightarrow> dict_set d (ad_rooftype a) (l @ [a])
                  | None \<Rightarrow> dict_set d (ad_rooftype a) [a])
       atticds []"

text \<open>
  The predominant value of a category among some attics: the value of greatest summed roof
  area (\<^verbatim>\<open>roof_area_by_cat\<close>, accumulated with \<^verbatim>\<open>+=\<close> on floats).
\<close>

definition roof_area_accum :: "(string \<times> rat) list \<Rightarrow> string \<Rightarrow> rat \<Rightarrow> (string \<times> rat) list" where
  "roof_area_accum d k v =
     (case map_of d k of None \<Rightarrow> dict_set d k v | Some old \<Rightarrow> dict_set d k (float_add old v))"

definition predominant :: "(atticd \<Rightarrow> string) \<Rightarrow> atticd list \<Rightarrow> error + string" where
  "predominant cat attics_of_type =
     dict_argmax (fold (\<lambda>a d. roof_area_accum d (cat a) (ad_roof_area a)) attics_of_type [])"

text \<open>
  The combination of the attics of one roof type: summed area, predominant categories and
  area-weighted means of the two center-of-cavity values.
\<close>

definition combine_attics :: "atticd list \<Rightarrow> error + atticd" where
  "combine_attics attics_of_type =
     ebind (predominant ad_roofconstype attics_of_type) (\<lambda>roofconstype.
     ebind (predominant ad_extfinish attics_of_type) (\<lambda>extfinish.
     ebind (predominant ad_roofcolor attics_of_type) (\<lambda>roofcolor.
     ebind (predominant ad_rooftype attics_of_type) (\<lambda>rooftype.
       if py_sum (map ad_roof_area attics_of_type) = 0 then Inl ZeroDivisionError
       else
         Inr \<lparr>ad_roofids = remdups (concat (map ad_roofids attics_of_type)),
              ad_roof_area = py_sum (map ad_roof_area attics_of_type),
              ad_rooftype = rooftype, ad_roofcolor = roofcolor, ad_extfinish = extfinish,
              ad_roofconstype = roofconstype,
              ad_roof_coc_rvalue =
                float_div
                  (py_sum (map (\<lambda>a. float_mul (ad_roof_coc_rvalue a) (ad_roof_area a))
                             attics_of_type))
                  (py_sum (map ad_roof_area attics_of_type)),
              ad_attic_floor_coc_rvalue =
                float_div
                  (py_sum (map (\<lambda>a. float_mul (ad_attic_floor_coc_rvalue a) (ad_roof_area a))
                             attics_of_type))
                  (py_sum (map ad_roof_area attics_of_type))\<rparr>))))"

text \<open>
  The attic dicts that become zones: all of them when there are one or two, one per roof
  type when there are more; none at all is an error.
\<close>

definition attics_to_zones :: "atticd list \<Rightarrow> error + atticd list" where
  "attics_to_zones atticds =
     (if length atticds = 0
      then Inl (TranslationError ''There are no Attic elements in this building.'')
      else if length atticds \<le> 2 then Inr atticds
      else emap combine_attics (map snd (attics_by_rooftype atticds)))"

record zone_roof_item =
  roof_name :: string
  roof_area :: rat
  roof_assembly_code :: string
  zr_roof_color :: string
  zr_roof_type :: string
  zr_roofids :: "string list"
  ceiling_assembly_code :: "string option"

text \<open>One output zone: the R-values are snapped from the center-of-cavity values.\<close>

definition zone_roof_of :: "nat \<times> atticd \<Rightarrow> error + zone_roof_item" where
  "zone_roof_of ia =
     ebind (roof_coc_table (ad_roofconstype (snd ia)) (ad_extfinish (snd ia))) (\<lambda>tab.
     ebind (dict_get tab 0) (\<lambda>roffset.
     ebind (py_min_key
              (\<lambda>x. \<bar>float_sub (float_sub (ad_roof_coc_rvalue (snd ia)) (round_to_double roffset))
                       (of_nat x)\<bar>)
              (map fst tab)) (\<lambda>roof_rvalue.
     ebind (py_min_key
              (\<lambda>x. \<bar>float_sub (float_sub (ad_attic_floor_coc_rvalue (snd ia)) (1 / 2)) (of_nat x)\<bar>)
              attic_floor_rvalues) (\<lambda>attic_floor_rvalue.
     Inr \<lparr>roof_name = ''roof'' @ fmt_d (fst ia), roof_area = ad_roof_area (snd ia),
          roof_assembly_code =
            ''rf'' @ ad_roofconstype (snd ia) @ fmt_02d roof_rvalue @ ad_extfinish (snd ia),
          zr_roof_color = ad_roofcolor (snd ia), zr_roof_type = ad_rooftype (snd ia),
          zr_roofids = ad_roofids (snd ia),
          ceiling_assembly_code =
            (if ad_rooftype (snd ia) \<noteq> ''cath_ceiling''
             then Some (''ecwf'' @ fmt_02d attic_floor_rvalue) else None)\<rparr>))))"

text \<open>
  \<^verbatim>\<open>atticds.sort(key=lambda x: x['roof_area'], reverse=True)\<close> and \<^verbatim>\<open>atticds[0:2]\<close>: the
  sort is stable, as \<open>sort_key\<close> on the negated area is.
\<close>

definition largest_two :: "atticd list \<Rightarrow> atticd list" where
  "largest_two atticds = take 2 (sort_key (\<lambda>x. - ad_roof_area x) atticds)"

definition get_building_zone_roof :: "hpxml_attic list \<Rightarrow> hpxml_roof list \<Rightarrow> int
    \<Rightarrow> error + zone_roof_item list" where
  "get_building_zone_roof attics roofs footprint_area =
     ebind (emap (attic_dict roofs (length attics) footprint_area) attics) (\<lambda>atticds.
     ebind (attics_to_zones atticds) (\<lambda>zones.
     emap zone_roof_of (zip [1 ..< Suc (length (largest_two zones))] (largest_two zones))))"

text \<open>Example roofs and attics.\<close>

definition example_roof :: hpxml_roof where
  "example_roof =
     \<lparr>roof_sysid = ''roof1'', roof_color = Some ''dark'',
      roof_type = Some ''asphalt or fiberglass shingles'', roof_radiant_barrier = False\<rparr>"

definition example_attic :: "string \<Rightarrow> string \<Rightarrow> rat \<Rightarrow> rat \<Rightarrow> hpxml_attic" where
  "example_attic sysid atype area floor_rvalue =
     \<lparr>attic_sysid = sysid, attic_attached_to_roof = Some ''roof1'', attic_area = Some area,
      attic_type = Some atype, attic_has_rigid_sheathing = False, attic_roof_rvalue = 0,
      attic_floor_rvalue = floor_rvalue\<rparr>"

definition example_attics :: "hpxml_attic list" where
  "example_attics =
     [example_attic ''attic1'' ''vented attic'' 400 30,
      example_attic ''attic2'' ''cathedral ceiling'' 900 0,
      example_attic ''attic3'' ''unvented attic'' 300 19]"

section \<open>An example building\<close>

text \<open>
  The data of a small town house that faces north, used to instantiate the theorems: four
  wood-stud walls with R-13 cavity insulation and vinyl siding, one on each side, and
  vinyl-framed double-pane low-e argon windows.
\<close>

definition example_sidemap :: sidemap where
  "example_sidemap = [(0, ''front''), (90, ''right''), (180, ''back''), (270, ''left'')]"

definition example_wall :: "string \<Rightarrow> string \<Rightarrow> hpxml_wall" where
  "example_wall sysid orient =
     \<lparr>wall_sysid = sysid, wall_type = ''WoodStud'', wall_eps_sheathing = None, wall_ove = None,
      wall_layers =
        [\<lparr>lyr_rigid = False, lyr_installation_type = Some ''cavity'',
          lyr_nominal_rvalue = Some 13\<rparr>],
      wall_siding = Some ''vinyl siding'', wall_area = Some 100, wall_azimuth = None,
      wall_orientation = Some orient\<rparr>"

definition example_walls :: "hpxml_wall list" where
  "example_walls =
     [example_wall ''wall1'' ''north'', example_wall ''wall2'' ''east'',
      example_wall ''wall3'' ''south'', example_wall ''wall4'' ''west'']"

definition example_window :: "string \<Rightarrow> hpxml_window" where
  "example_window orient =
     \<lparr>win_area = Some 10, win_quantity = None, win_ufactor = None, win_shgc = None,
      win_frame_type = ''Vinyl'', win_thermal_break = None,
      win_glass_layers = Some ''double-pane'', win_glass_type = Some ''low-e'',
      win_gas_fill = Some ''argon'', win_attached_to_wall = None, win_azimuth = None,
      win_orientation = Some orient\<rparr>"

definition example_about :: bldg_about where
  "example_about =
     \<lparr>about_assessment_date = PDate 2014 12 2, about_shape = ''town_house'',
      about_town_house_walls = Some ''back_right_front'', about_year_built = 1961,
      about_number_bedrooms = 3, about_num_floor_above_grade = 2,
      about_floor_to_ceiling_height = 8, about_conditioned_floor_area = 1800,
      about_orientation = ''north'', about_blower_door_test = False,
      about_envelope_leakage = None, about_air_sealing_present = Some False\<rparr>"

text \<open>
  One air distribution system with 60 percent of its ducts in conditioned space and 40
  percent in an unconditioned basement, and no floor area served.
\<close>

definition example_airdistsys :: hpxml_airdistsys where
  "example_airdistsys =
     \<lparr>ads_issealed = True,
      ads_ducts =
        [\<lparr>duct_fraction_area = Some 0.6, duct_location = Some ''conditioned space'',
          duct_has_ins = False\<rparr>,
         \<lparr>duct_fraction_area = Some 0.4, duct_location = Some ''unconditioned basement'',
          duct_has_ins = True\<rparr>],
      ads_cfaserved = None\<rparr>"

definition example_ducts :: "hvacd list" where
  "example_ducts =
     [\<lparr>hd_name = ''duct1'', hd_location = ''cond_space'', hd_fraction = 60,
       hd_insulated = False, hd_sealed = True\<rparr>,
      \<lparr>hd_name = ''duct2'', hd_location = ''uncond_basement'', hd_fraction = 40,
       hd_insulated = True, hd_sealed = True\<rparr>]"

section \<open>Properties\<close>

subsection \<open>Rounding to a double\<close>

lemma bitlen_rat_bounds:
  assumes "0 < a"
  shows "(2::rat) powi (bitlen a - 1) \<le> of_int a" "of_int a < (2::rat) powi (bitlen a)"
proof -
  have l: "1 \<le> bitlen a" using assms bitlen_eq_zero_iff [of a] bitlen_nonneg [of a] by linarith
  have b: "2 ^ nat (bitlen a - 1) \<le> a" "a < 2 ^ nat (bitlen a)"
    using bitlen_bounds [OF assms] by simp_all
  have "(of_int (2 ^ nat (bitlen a - 1)) :: rat) \<le> of_int a"
    using b(1) by (simp only: of_int_le_iff)
  then show "(2::rat) powi (bitlen a - 1) \<le> of_int a"
    using l by (simp add: power_int_nonneg_exp)
  have "(of_int a :: rat) < of_int (2 ^ nat (bitlen a))"
    using b(2) by (simp only: of_int_less_iff)
  then show "of_int a < (2::rat) powi (bitlen a)"
    using l by (simp add: power_int_nonneg_exp)
qed

text \<open>The exponent brackets the magnitude.\<close>

lemma float_exponent_bounds:
  assumes "q \<noteq> 0"
  shows "2 powi (float_exponent q) \<le> \<bar>q\<bar> \<and> \<bar>q\<bar> < 2 powi (float_exponent q + 1)"
proof -
  obtain a b where ab: "quotient_of \<bar>q\<bar> = (a, b)" by (cases "quotient_of \<bar>q\<bar>")
  have bpos: "0 < b" using quotient_of_denom_pos [OF ab] .
  have q: "\<bar>q\<bar> = of_int a / of_int b" using quotient_of_div [OF ab] .
  have "0 < \<bar>q\<bar>" using assms by simp
  then have apos: "0 < a" using bpos unfolding q by (simp add: zero_less_divide_iff)
  note ba = bitlen_rat_bounds [OF apos]
  note bb = bitlen_rat_bounds [OF bpos]
  have bp: "(0::rat) < of_int b" using bpos by simp
  have lo: "(2::rat) powi (bitlen a - bitlen b - 1) \<le> \<bar>q\<bar>"
  proof -
    have "(2::rat) powi (bitlen a - bitlen b - 1) = 2 powi (bitlen a - 1) / 2 powi (bitlen b)"
      by (simp add: power_int_diff)
    also have "\<dots> \<le> of_int a / 2 powi (bitlen b)"
      using ba(1) by (simp add: divide_right_mono)
    also have "\<dots> \<le> of_int a / of_int b"
      using bb(2) bp apos by (simp add: frac_le)
    finally show ?thesis unfolding q .
  qed
  have hi: "\<bar>q\<bar> < (2::rat) powi (bitlen a - bitlen b + 1)"
  proof -
    have p: "(0::rat) < 2 powi (bitlen b - 1)" by simp
    have "of_int a / of_int b < (2::rat) powi (bitlen a) / of_int b"
      using ba(2) bp by (simp add: divide_strict_right_mono)
    also have "\<dots> \<le> 2 powi (bitlen a) / 2 powi (bitlen b - 1)"
      using bb(1) p by (simp add: frac_le)
    also have "\<dots> = 2 powi (bitlen a - bitlen b + 1)"
      by (simp add: power_int_diff power_int_add)
    finally show ?thesis unfolding q .
  qed
  show ?thesis
  proof (cases "2 powi (bitlen a - bitlen b) \<le> \<bar>q\<bar>")
    case True
    then have "float_exponent q = bitlen a - bitlen b" by (simp add: float_exponent_def ab)
    then show ?thesis using True hi by simp
  next
    case False
    then have "float_exponent q = bitlen a - bitlen b - 1" by (simp add: float_exponent_def ab)
    then show ?thesis using False lo by simp
  qed
qed

lemma pow2_less_imp:
  assumes "(2::rat) powi a < 2 powi b"
  shows "a < b"
proof (rule ccontr)
  assume "\<not> a < b"
  then have "b \<le> a" by simp
  then have "(2::rat) powi b \<le> 2 powi a" by (rule power_int_increasing) simp
  with assms show False by simp
qed

lemma float_exponent_less:
  assumes "q \<noteq> 0" "\<bar>q\<bar> < 2 powi u"
  shows "float_exponent q < u"
proof -
  have "(2::rat) powi (float_exponent q) < 2 powi u"
    using float_exponent_bounds [OF assms(1)] assms(2) by linarith
  then show ?thesis by (rule pow2_less_imp)
qed

lemma float_exponent_ge:
  assumes "q \<noteq> 0" "2 powi l \<le> \<bar>q\<bar>"
  shows "l \<le> float_exponent q"
proof -
  have "(2::rat) powi l < 2 powi (float_exponent q + 1)"
    using float_exponent_bounds [OF assms(1)] assms(2) by linarith
  then have "l < float_exponent q + 1" by (rule pow2_less_imp)
  then show ?thesis by simp
qed

lemma round_half_even_error: "\<bar>of_int (round_half_even m) - m\<bar> \<le> 1 / 2"
proof -
  have a: "of_int \<lfloor>m\<rfloor> \<le> m" "m < of_int \<lfloor>m\<rfloor> + 1" by linarith+
  show ?thesis
    unfolding round_half_even_def using a by (simp add: abs_le_iff)
qed

lemma round_half_even_of_int: "round_half_even (of_int n) = n"
  by (simp add: round_half_even_def)

lemma double_ulp_pos: "0 < double_ulp q"
  by (simp add: double_ulp_def)

text \<open>Rounding moves a number by at most half the spacing.\<close>

lemma round_to_double_error_ulp: "\<bar>round_to_double q - q\<bar> \<le> double_ulp q / 2"
proof (cases "q = 0")
  case True
  then show ?thesis using double_ulp_pos [of q] by (simp add: round_to_double_def)
next
  case False
  let ?u = "double_ulp q"
  have u: "0 < ?u" by (rule double_ulp_pos)
  have "\<bar>of_int (round_half_even (q / ?u)) - q / ?u\<bar> * ?u \<le> 1 / 2 * ?u"
    using round_half_even_error [of "q / ?u"] u by (simp only: mult_le_cancel_right_pos)
  moreover have "\<bar>of_int (round_half_even (q / ?u)) - q / ?u\<bar> * ?u
      = \<bar>of_int (round_half_even (q / ?u)) * ?u - q\<bar>"
  proof -
    have "\<bar>of_int (round_half_even (q / ?u)) - q / ?u\<bar> * ?u
        = \<bar>(of_int (round_half_even (q / ?u)) - q / ?u) * ?u\<bar>"
      using u by (simp add: abs_mult)
    also have "(of_int (round_half_even (q / ?u)) - q / ?u) * ?u
        = of_int (round_half_even (q / ?u)) * ?u - q"
      using u by (simp add: algebra_simps)
    finally show ?thesis .
  qed
  ultimately show ?thesis using False by (simp add: round_to_double_def)
qed

lemma round_to_double_error:
  assumes b: "\<bar>q\<bar> < 2 powi u" and u: "- 1021 \<le> u"
  shows "\<bar>round_to_double q - q\<bar> \<le> 2 powi (u - 54)"
proof (cases "q = 0")
  case True
  then show ?thesis by (simp add: round_to_double_def)
next
  case False
  have "float_exponent q < u" using float_exponent_less [OF False b] .
  then have "max (float_exponent q) (- 1022) - 52 \<le> u - 53" using u by simp
  then have "double_ulp q \<le> 2 powi (u - 53)"
    unfolding double_ulp_def by (rule power_int_increasing) simp
  then have "double_ulp q / 2 \<le> 2 powi (u - 53) / 2" by simp
  also have "(2::rat) powi (u - 53) / 2 = 2 powi (u - 54)"
    by (simp add: power_int_diff)
  finally show ?thesis using round_to_double_error_ulp [of q] by linarith
qed

text \<open>An integer below \<open>2 ^ 53\<close> in magnitude is a double.\<close>

lemma round_to_double_of_int:
  assumes "\<bar>x\<bar> < 2 ^ 53"
  shows "round_to_double (of_int x) = of_int x"
proof (cases "x = 0")
  case True
  then show ?thesis by (simp add: round_to_double_def)
next
  case False
  let ?q = "of_int x :: rat"
  let ?e = "float_exponent ?q"
  have nz: "?q \<noteq> 0" using False by simp
  have "(1::rat) \<le> \<bar>?q\<bar>" using False by (simp flip: of_int_abs)
  then have "(2::rat) powi 0 \<le> \<bar>?q\<bar>" by simp
  then have e0: "0 \<le> ?e" by (rule float_exponent_ge [OF nz])
  have "\<bar>?q\<bar> < of_int (2 ^ 53)" using assms by (simp only: of_int_less_iff flip: of_int_abs)
  then have "\<bar>?q\<bar> < 2 powi 53" by simp
  then have e1: "?e < 53" by (rule float_exponent_less [OF nz])
  have ulp: "double_ulp ?q = 1 / 2 ^ nat (52 - ?e)"
    using e0 e1 by (simp add: double_ulp_def power_int_def max_def inverse_eq_divide power_one_over)
  have "?q / double_ulp ?q = of_int (x * 2 ^ nat (52 - ?e))"
    by (simp add: ulp)
  then have "round_half_even (?q / double_ulp ?q) = x * 2 ^ nat (52 - ?e)"
    by (simp only: round_half_even_of_int)
  then show ?thesis using nz by (simp add: round_to_double_def) (simp add: ulp)
qed

subsection \<open>Azimuth canonicalization\<close>

lemma not_90_dvd_odd: "\<not> (90::int) dvd (2 * x + 45)"
proof
  assume "(90::int) dvd (2 * x + 45)"
  moreover have "(2::int) dvd 90" by simp
  ultimately have "(2::int) dvd (2 * x + 45)" by (rule dvd_trans [rotated])
  then show False by presburger
qed

lemma neg_div_90: "- ((- 2 * x + 45) div 90) = (2 * x + 45) div (90::int)"
proof -
  let ?m = "2 * x + 45"
  have nz: "?m mod 90 \<noteq> 0" using not_90_dvd_odd [of x] by (simp add: dvd_eq_mod_eq_0)
  have "(- 2 * x + 45) = - ?m + 1 * 90" by simp
  then have "(- 2 * x + 45) div 90 = (- ?m) div 90 + 1"
    by (metis div_mult_self1 zero_neq_numeral add.commute)
  also have "(- ?m) div 90 = - (?m div 90) - 1"
    by (subst zdiv_zminus1_eq_if) (use nz in simp_all)
  finally show ?thesis by simp
qed

lemma div_90_period: "(2 * (x + 360 * k) + 45) div 90 mod 8 = (2 * x + 45) div 90 mod (8::int)"
proof -
  have "2 * (x + 360 * k) + 45 = (2 * x + 45) + (8 * k) * 90" by simp
  then have "(2 * (x + 360 * k) + 45) div 90 = (2 * x + 45) div 90 + 8 * k"
    by simp
  then show ?thesis by simp
qed

lemma div_90_bin: "(2 * (j mod 8 * 45) + 45) div 90 mod 8 = j mod (8::int)"
proof -
  have "2 * (j mod 8 * 45) + 45 = 45 + (j mod 8) * 90" by simp
  then have "(2 * (j mod 8 * 45) + 45) div 90 = j mod 8"
    by simp
  then show ?thesis by simp
qed

text \<open>
  For an integer \<open>x\<close> the exact quotient \<open>x / 45\<close> is at least 1/90 away from every tie of
  the rounding to an integer.
\<close>

lemma div_90_frac:
  shows "of_int ((2 * x + 45) div 90) + 1 / 90 \<le> (of_int x / 45 + 1 / 2 :: rat)"
    and "(of_int x / 45 + 1 / 2 :: rat) \<le> of_int ((2 * x + 45) div 90) + 89 / 90"
proof -
  let ?n = "(2 * x + 45) div 90"
  let ?r = "(2 * x + 45) mod 90"
  have r0: "?r \<noteq> 0" using not_90_dvd_odd [of x] by (simp add: dvd_eq_mod_eq_0)
  have "0 \<le> ?r" by simp
  with r0 have r1: "1 \<le> ?r" by linarith
  have "?r < 90" by simp
  then have r2: "?r \<le> 89" by linarith
  have h0: "90 * ?n + ?r = 2 * x + 45" by simp
  have "(of_int (2 * x + 45) :: rat) = of_int (90 * ?n + ?r)" by (simp only: h0)
  then have h: "2 * of_int x + 45 = 90 * of_int ?n + (of_int ?r :: rat)"
    by (simp only: of_int_add of_int_mult of_int_numeral)
  have "(of_int x / 45 + 1 / 2 :: rat) = (2 * of_int x + 45) / 90" by simp
  also have "\<dots> = of_int ?n + of_int ?r / 90"
    unfolding h by (simp add: add_divide_distrib)
  finally have e: "(of_int x / 45 + 1 / 2 :: rat) = of_int ?n + of_int ?r / 90" .
  have "(1::rat) \<le> of_int ?r" using r1 by (simp only: of_int_1_le_iff)
  then show "of_int ?n + 1 / 90 \<le> (of_int x / 45 + 1 / 2 :: rat)"
    unfolding e by simp
  have "(of_int ?r :: rat) \<le> of_int 89" using r2 by (simp only: of_int_le_iff)
  then show "(of_int x / 45 + 1 / 2 :: rat) \<le> of_int ?n + 89 / 90"
    unfolding e by simp
qed

text \<open>So a number less than 1/90 away from \<open>x / 45\<close> is rounded like \<open>x / 45\<close>.\<close>

lemma py_round_near:
  assumes "\<bar>y - of_int x / 45\<bar> < 1 / 90"
  shows "py_round y = (2 * x + 45) div 90"
proof (cases "0 \<le> y")
  case True
  have "of_int ((2 * x + 45) div 90) \<le> y + 1 / 2"
    using div_90_frac(1) [of x] assms by linarith
  moreover have "y + 1 / 2 < of_int ((2 * x + 45) div 90) + 1"
    using div_90_frac(2) [of x] assms by linarith
  ultimately have "\<lfloor>y + 1 / 2\<rfloor> = (2 * x + 45) div 90" by (rule floor_unique)
  then show ?thesis using True by (simp add: py_round_def)
next
  case False
  have n1: "of_int ((- 2 * x + 45) div 90) + 1 / 90 \<le> (- (of_int x / 45) + 1 / 2 :: rat)"
    using div_90_frac(1) [of "- x"] by simp
  have n2: "(- (of_int x / 45) + 1 / 2 :: rat) \<le> of_int ((- 2 * x + 45) div 90) + 89 / 90"
    using div_90_frac(2) [of "- x"] by simp
  have "of_int ((- 2 * x + 45) div 90) \<le> - y + 1 / 2"
    using n1 assms by linarith
  moreover have "- y + 1 / 2 < of_int ((- 2 * x + 45) div 90) + 1"
    using n2 assms by linarith
  ultimately have "\<lfloor>- y + 1 / 2\<rfloor> = (- 2 * x + 45) div 90" by (rule floor_unique)
  then have "py_round y = - ((- 2 * x + 45) div 90)" using False by (simp add: py_round_def)
  then show ?thesis by (simp only: neg_div_90)
qed

text \<open>
  Up to \<open>2 ^ 52\<close> the quotient is below \<open>2 ^ 47\<close>, where doubles are \<open>2 ^ (- 6)\<close> apart:
  the double quotient is within 1/128 of the exact one.
\<close>

lemma double_quotient_bin:
  assumes "\<bar>x\<bar> \<le> 2 ^ 52"
  shows "py_round (round_to_double (round_to_double (of_int x) / 45)) = (2 * x + 45) div 90"
proof -
  have "\<bar>x\<bar> < 2 ^ 53" using assms by simp
  then have ex: "round_to_double (of_int x) = of_int x" by (rule round_to_double_of_int)
  let ?q = "of_int x / 45 :: rat"
  have "(of_int \<bar>x\<bar> :: rat) \<le> of_int (2 ^ 52)" using assms by (simp only: of_int_le_iff)
  then have "\<bar>of_int x :: rat\<bar> \<le> 2 ^ 52" by simp
  then have "\<bar>?q\<bar> < 2 powi 47" by (simp add: abs_divide)
  then have "\<bar>round_to_double ?q - ?q\<bar> \<le> 2 powi (47 - 54)"
    by (rule round_to_double_error) simp
  moreover have "(2::rat) powi (47 - 54) = 1 / 128"
    by (simp add: power_int_def power_one_over)
  ultimately have "\<bar>round_to_double ?q - ?q\<bar> < 1 / 90"
    by linarith
  then show ?thesis unfolding ex by (rule py_round_near)
qed

lemma int_double_finite:
  assumes "\<bar>x\<bar> < 2 ^ 53"
  shows "\<not> is_infinite (round_to_double (of_int x))"
proof -
  have ex: "round_to_double (of_int x) = of_int x" using assms by (rule round_to_double_of_int)
  have "(of_int \<bar>x\<bar> :: rat) < of_int (2 ^ 53)" using assms by (simp only: of_int_less_iff)
  then have "\<bar>of_int x :: rat\<bar> < 2 powi 53" by simp
  moreover have "(2::rat) powi 53 < 2 powi 1024" by (rule power_int_strict_increasing) simp_all
  ultimately show ?thesis unfolding ex is_infinite_def by linarith
qed

lemma nearest_azimuth_int:
  assumes "\<bar>x\<bar> \<le> 2 ^ 52"
  shows "get_nearest_azimuth (Some (of_int x)) orientation = Inr ((2 * x + 45) div 90 mod 8 * 45)"
proof -
  have "\<bar>x\<bar> < 2 ^ 53" using assms by simp
  then have "\<not> is_infinite (round_to_double (of_int x))" by (rule int_double_finite)
  then show ?thesis
    using double_quotient_bin [OF assms] by (simp add: get_nearest_azimuth_def)
qed

lemma bin_small: "\<bar>j mod 8 * 45\<bar> \<le> (2 ^ 52 :: int)"
proof -
  have "0 \<le> j mod 8" "j mod 8 < 8" by simp_all
  then show ?thesis by simp
qed

text \<open>
  C6. For every integer azimuth \<open>x\<close> of magnitude at most \<open>2 ^ 52\<close> the canonical azimuth \<open>c\<close>
  of \<open>x\<close> is a fixed point of the canonicalization (idempotence), and every \<open>x + 360 * k\<close>
  of magnitude at most \<open>2 ^ 52\<close> has the same canonical azimuth (periodicity). The
  orientation argument is ignored when an azimuth is given.
\<close>

theorem azimuth_canonicalization_idempotent_periodic:
  assumes "\<bar>x\<bar> \<le> 2 ^ 52"
  shows "\<exists>c. get_nearest_azimuth (Some (of_int x)) o1 = Inr c
      \<and> get_nearest_azimuth (Some (of_int c)) o2 = Inr c
      \<and> (\<forall>k. \<bar>x + 360 * k\<bar> \<le> 2 ^ 52
             \<longrightarrow> get_nearest_azimuth (Some (of_int (x + 360 * k))) o3 = Inr c)"
proof -
  let ?c = "(2 * x + 45) div 90 mod 8 * 45"
  have idem: "(2 * ?c + 45) div 90 mod 8 * 45 = ?c"
    by (simp only: div_90_bin mod_mod_trivial)
  have per: "(2 * (x + 360 * k) + 45) div 90 mod 8 * 45 = ?c" for k
    by (simp only: div_90_period)
  have a: "get_nearest_azimuth (Some (of_int x)) o1 = Inr ?c"
    using assms by (rule nearest_azimuth_int)
  have "get_nearest_azimuth (Some (of_int ?c)) o2 = Inr ((2 * ?c + 45) div 90 mod 8 * 45)"
    using bin_small by (rule nearest_azimuth_int)
  then have b: "get_nearest_azimuth (Some (of_int ?c)) o2 = Inr ?c"
    by (simp only: idem)
  have c: "get_nearest_azimuth (Some (of_int (x + 360 * k))) o3 = Inr ?c"
    if "\<bar>x + 360 * k\<bar> \<le> 2 ^ 52" for k
    using nearest_azimuth_int [OF that, of o3] by (simp only: per)
  show ?thesis
    using a b c by blast
qed

theorem azimuth_canonicalization_witness:
  "get_nearest_azimuth (Some 100) None = Inr 90
   \<and> get_nearest_azimuth (Some 90) None = Inr 90
   \<and> get_nearest_azimuth (Some (100 + 360 * (- 2))) None = Inr 90"
proof -
  have "\<bar>100 :: int\<bar> \<le> 2 ^ 52" by simp
  then obtain c where c1: "get_nearest_azimuth (Some (of_int 100)) None = Inr c"
    and c2: "get_nearest_azimuth (Some (of_int c)) None = Inr c"
    and c3: "\<forall>k. \<bar>100 + 360 * k\<bar> \<le> 2 ^ 52
               \<longrightarrow> get_nearest_azimuth (Some (of_int (100 + 360 * k))) None = Inr c"
    using azimuth_canonicalization_idempotent_periodic [of 100 None None None] by blast
  have "get_nearest_azimuth (Some (of_int 100)) None = Inr (2 mod 8 * 45)"
    using nearest_azimuth_int [of 100 None] by simp
  then have "c = 90" using c1 by simp
  then show ?thesis using c1 c2 c3 [rule_format, of "- 2"] by simp
qed

text \<open>
  Beyond that bound the double quotient can land on a tie that the exact quotient misses:
  \<open>22 + 360 * 2 ^ 44\<close> is a double, and the double nearest to its quotient by 45 is
  \<open>2 ^ 47 + 1 / 2\<close>, which is rounded away from zero to an odd bin, while 22 is in bin 0.
\<close>

theorem azimuth_period_lost_to_double_rounding:
  "get_nearest_azimuth (Some (of_int 22)) None = Inr 0
   \<and> get_nearest_azimuth (Some (of_int (22 + 360 * 2 ^ 44))) None = Inr 45"
proof -
  let ?x = "22 + 360 * 2 ^ 44 :: int"
  have "get_nearest_azimuth (Some (of_int 22)) None = Inr ((2 * 22 + 45) div 90 mod 8 * 45)"
    by (rule nearest_azimuth_int) simp
  then have a: "get_nearest_azimuth (Some (of_int 22)) None = Inr 0"
    by simp
  have small: "\<bar>?x\<bar> < 2 ^ 53" by simp
  have ex: "round_to_double (of_int ?x) = of_int ?x"
    using small by (rule round_to_double_of_int)
  have fin: "\<not> is_infinite (round_to_double (of_int ?x))"
    using small by (rule int_double_finite)
  have q: "round_to_double (of_int ?x / 45) = 2 ^ 47 + 1 / 2"
    by code_simp
  have "py_round (2 ^ 47 + 1 / 2) = 2 ^ 47 + 1"
    by (simp add: py_round_def)
  then have "py_round (round_to_double (round_to_double (of_int ?x) / 45)) mod 8 * 45 = 45"
    unfolding ex q by simp
  then have b: "get_nearest_azimuth (Some (of_int ?x)) None = Inr 45"
    using fin by (simp only: get_nearest_azimuth_def option.case if_False)
  from a b show ?thesis by (rule conjI)
qed

subsection \<open>Wall classification scenario\<close>







subsection \<open>Evaluation helpers\<close>

lemma ebind_Inr: "ebind (Inr v) f = f v" by (simp add: ebind_def)

subsection \<open>R-value normalization of a single wall\<close>






















subsection \<open>Windows on the shared walls of a town house\<close>

lemma emap_Inl: "emap f xs = Inl e \<Longrightarrow> \<exists>x\<in>set xs. f x = Inl e"
  by (induction xs) (auto simp: ebind_def split: sum.splits)

lemma window_code_areas_error: "window_code_areas ws d = Inl e \<Longrightarrow> e = AssertionError"
  by (induction ws arbitrary: d) (auto split: option.splits)

lemma dict_argmax_error: "dict_argmax d = Inl e \<Longrightarrow> e = ValueError"
  by (cases d) (auto simp: dict_argmax_def ebind_def)

lemma zone_window_of_error:
  "zone_window_of ws = Inl e \<Longrightarrow> e = ZeroDivisionError \<or> e = AssertionError \<or> e = ValueError"
  by (auto simp: zone_window_of_def ebind_def split: if_splits sum.splits
        dest: window_code_areas_error dict_argmax_error)

lemma zone_windows_no_translation_error:
  "emap (\<lambda>kv. zone_window_of (snd kv)) hpxmlwindows \<noteq> Inl (TranslationError m)"
proof
  assume "emap (\<lambda>kv. zone_window_of (snd kv)) hpxmlwindows = Inl (TranslationError m)"
  then obtain kv where "zone_window_of (snd kv) = Inl (TranslationError m)"
    using emap_Inl by fastforce
  then show False using zone_window_of_error by fastforce
qed

text \<open>
  C10. Take a town house for which the first part of \<^verbatim>\<open>_get_building_zone_wall\<close> has
  succeeded with the windows by side \<open>hpxmlwindows\<close>, and which has a window on a wall that
  is shared according to its \<^verbatim>\<open>town_house_walls\<close> value \<open>thw\<close>. Then the error
  \<^verbatim>\<open>'The house has windows on shared walls.'\<close> is raised exactly when \<open>thw\<close> is not
  \<^verbatim>\<open>'back_right_front'\<close> or a window is on a shared wall also for \<^verbatim>\<open>'back_front_left'\<close>;
  and whenever the function returns, \<open>thw\<close> was \<^verbatim>\<open>'back_right_front'\<close> and the returned
  \<^verbatim>\<open>bldg_about\<close> has \<^verbatim>\<open>town_house_walls = 'back_front_left'\<close>.
\<close>

theorem town_house_window_reassignment:
  assumes ww: "walls_and_windows sidemap walls windows = Inr (codes, hpxmlwindows)"
    and th: "about_shape about = ''town_house''" "about_town_house_walls about = Some thw"
    and sh: "windows_are_on_shared_walls sidemap thw hpxmlwindows"
  shows "((get_building_zone_wall sidemap walls windows about
            = Inl (TranslationError ''The house has windows on shared walls.''))
          = (thw \<noteq> ''back_right_front''
             \<or> windows_are_on_shared_walls sidemap ''back_front_left'' hpxmlwindows))
       \<and> (\<forall>zone_wall about'.
             get_building_zone_wall sidemap walls windows about = Inr (zone_wall, about')
             \<longrightarrow> thw = ''back_right_front''
                 \<and> about' = about\<lparr>about_town_house_walls := Some ''back_front_left''\<rparr>)"
proof (cases "thw \<noteq> ''back_right_front''
    \<or> windows_are_on_shared_walls sidemap ''back_front_left'' hpxmlwindows")
  case True
  then have "town_house_check sidemap about hpxmlwindows
      = Inl (TranslationError ''The house has windows on shared walls.'')"
    using th sh by (auto simp: town_house_check_def)
  then have "get_building_zone_wall sidemap walls windows about
      = Inl (TranslationError ''The house has windows on shared walls.'')"
    by (simp add: get_building_zone_wall_def ww ebind_def)
  then show ?thesis using True by simp
next
  case False
  then have c: "town_house_check sidemap about hpxmlwindows
      = Inr (about\<lparr>about_town_house_walls := Some ''back_front_left''\<rparr>)"
    using th sh by (auto simp: town_house_check_def)
  have r: "get_building_zone_wall sidemap walls windows about =
      ebind (emap (\<lambda>kv. zone_window_of (snd kv)) hpxmlwindows) (\<lambda>zone_windows.
        Inr (map (\<lambda>(side, code).
                 \<lparr>hw_side = side, wall_assembly_code = code,
                  hw_zone_window = map_of (zip (map fst hpxmlwindows) zone_windows) side\<rparr>)
            (zip (map snd sidemap) codes),
          about\<lparr>about_town_house_walls := Some ''back_front_left''\<rparr>))"
    by (simp add: get_building_zone_wall_def ww c ebind_def)
  have "get_building_zone_wall sidemap walls windows about
      \<noteq> Inl (TranslationError ''The house has windows on shared walls.'')"
    using zone_windows_no_translation_error [of hpxmlwindows]
    by (auto simp: r ebind_def split: sum.splits)
  moreover have "\<forall>zone_wall about'.
             get_building_zone_wall sidemap walls windows about = Inr (zone_wall, about')
             \<longrightarrow> thw = ''back_right_front''
                 \<and> about' = about\<lparr>about_town_house_walls := Some ''back_front_left''\<rparr>"
    using False by (auto simp: r ebind_def split: sum.splits)
  ultimately show ?thesis using False by simp
qed


lemma example_walls_and_windows:
  "walls_and_windows example_sidemap example_walls [example_window ''east'', example_window ''west'']
   = Inr ([''ewwf13vi'', ''ewwf13vi'', ''ewwf13vi'', ''ewwf13vi''],
          [(''front'', []),
           (''right'', [\<lparr>wnd_area = 10, wnd_uvalue = None, wnd_shgc = None, wnd_window_code = Some ''dpeaaw''\<rparr>]),
           (''back'', []),
           (''left'', [\<lparr>wnd_area = 10, wnd_uvalue = None, wnd_shgc = None, wnd_window_code = Some ''dpeaaw''\<rparr>])])"
  by code_simp

theorem town_house_window_reassignment_witness:
  "get_building_zone_wall example_sidemap example_walls
     [example_window ''east'', example_window ''west''] example_about
   = Inl (TranslationError ''The house has windows on shared walls.'')"
proof -
  let ?hw = "[(''front'', []),
           (''right'', [\<lparr>wnd_area = 10, wnd_uvalue = None, wnd_shgc = None, wnd_window_code = Some ''dpeaaw''\<rparr>]),
           (''back'', []),
           (''left'', [\<lparr>wnd_area = 10, wnd_uvalue = None, wnd_shgc = None, wnd_window_code = Some ''dpeaaw''\<rparr>])]"
  have th: "about_shape example_about = ''town_house''"
    "about_town_house_walls example_about = Some ''back_right_front''"
    by (simp_all add: example_about_def)
  have sh: "windows_are_on_shared_walls example_sidemap ''back_right_front'' ?hw"
    by code_simp
  have sh': "windows_are_on_shared_walls example_sidemap ''back_front_left'' ?hw"
    by code_simp
  show ?thesis
    using town_house_window_reassignment [OF example_walls_and_windows th sh] sh' by simp
qed

subsection \<open>Duct buckets\<close>

lemma dict_set_fst_present:
  "map_of d k \<noteq> None \<Longrightarrow> map fst (dict_set d k v) = map fst d"
  by (auto simp: dict_set_def)

lemma dict_set_distinct: "distinct (map fst d) \<Longrightarrow> distinct (map fst (dict_set d k v))"
proof (cases "map_of d k = None")
  case True
  assume "distinct (map fst d)"
  moreover from True have "k \<notin> fst ` set d" by (simp add: map_of_eq_None_iff)
  ultimately show ?thesis using True by (simp add: dict_set_def)
next
  case False
  assume "distinct (map fst d)"
  then show ?thesis using dict_set_fst_present [OF False] by simp
qed

lemma dict_accum_distinct: "distinct (map fst d) \<Longrightarrow> distinct (map fst (dict_accum d k v))"
  by (simp add: dict_accum_def dict_set_distinct split: option.splits)

lemma combine_inner_distinct:
  "distinct (map fst (fst acc)) \<Longrightarrow>
   distinct (map fst (fst (fold (\<lambda>(key, v) (ductfracs, issealedfracs).
                     (dict_accum ductfracs key v,
                      dict_accum issealedfracs key (v * (if issealed then 1 else 0))))
               fracs acc)))"
  by (induction fracs arbitrary: acc) (auto simp: dict_accum_distinct split: prod.splits)

lemma combine_outer_distinct:
  "distinct (map fst (fst acc)) \<Longrightarrow>
   distinct (map fst (fst (fold (\<lambda>(fracs, issealed) acc.
             fold (\<lambda>(key, v) (ductfracs, issealedfracs).
                     (dict_accum ductfracs key v,
                      dict_accum issealedfracs key (v * (if issealed then 1 else 0))))
               fracs acc) systems acc)))"
proof (induction systems arbitrary: acc)
  case Nil
  then show ?case by simp
next
  case (Cons s systems)
  obtain fracs issealed where s: "s = (fracs, issealed)" by (cases s)
  show ?case
    using Cons.IH [OF combine_inner_distinct [OF Cons.prems, of issealed fracs]]
    by (simp add: s)
qed

lemma combine_ducts_distinct: "distinct (map fst (fst (combine_ducts systems)))"
  unfolding combine_ducts_def by (rule combine_outer_distinct) simp

lemma top3_length: "length (top3locations_of d) \<le> 3"
  by (simp add: top3locations_of_def)

lemma top3_distinct: "distinct (map fst d) \<Longrightarrow> distinct (top3locations_of d)"
  by (simp add: top3locations_of_def distinct_take)

lemma top3_subset: "set (top3locations_of d) \<subseteq> set (map fst d)"
proof -
  have "set (take 3 (sort_key (\<lambda>x. - dict_val d x) (map fst d)))
      \<subseteq> set (sort_key (\<lambda>x. - dict_val d x) (map fst d))"
    by (rule set_take_subset)
  then show ?thesis by (simp add: top3locations_of_def)
qed

lemma keep_locations_keys:
  assumes "distinct (map fst d)"
  shows "mset (map fst (keep_locations (top3locations_of d) d)) = mset (top3locations_of d)"
proof -
  let ?t = "top3locations_of d"
  let ?f = "filter (\<lambda>k. k \<in> set ?t) (map fst d)"
  have m: "map fst (keep_locations ?t d) = ?f"
    by (simp add: keep_locations_def filter_map comp_def)
  have s: "set ?f = set ?t"
    using top3_subset [of d] by auto
  have df: "distinct ?f"
    using assms by simp
  have "mset ?f = mset ?t"
    using set_eq_iff_mset_eq_distinct [OF df top3_distinct [OF assms]] s by blast
  then show ?thesis
    unfolding m .
qed

lemma keep_locations_distinct:
  "distinct (map fst d) \<Longrightarrow> distinct (map fst (keep_locations t d))"
  by (simp add: keep_locations_def distinct_map_filter)

lemma percentages_keys: "percentages d = Inr pct \<Longrightarrow> map fst pct = map fst d"
  by (auto simp: percentages_def split: if_splits)

lemma sum_dict_set_present:
  fixes d :: "('k \<times> int) list"
  assumes "distinct (map fst d)" "map_of d k = Some old"
  shows "sum_list (map snd (dict_set d k v)) = sum_list (map snd d) - old + v"
  using assms
proof (induction d)
  case Nil
  then show ?case by simp
next
  case (Cons kv d)
  obtain k' v' where kv: "kv = (k', v')" by (cases kv)
  show ?case
  proof (cases "k' = k")
    case True
    then have "k \<notin> fst ` set d" using Cons.prems(1) kv by auto
    then have "map (\<lambda>kv. if fst kv = k then (k, v) else kv) d = d"
      by (induction d) auto
    then show ?thesis using True Cons.prems kv by (simp add: dict_set_def)
  next
    case False
    then have m: "map_of d k = Some old" using Cons.prems(2) kv by simp
    have "distinct (map fst d)" using Cons.prems(1) by simp
    from Cons.IH [OF this m] show ?thesis
      using False kv m by (simp add: dict_set_def)
  qed
qed

lemma adjust_largest_sum:
  assumes "distinct (map fst pct)" "adjust_largest top3 pct = Inr pct'" "top3 \<noteq> []"
  shows "sum_list (map snd pct') = 100 \<and> map fst pct' = map fst pct"
proof -
  obtain first rest where t: "top3 = first # rest" using assms(3) by (cases top3) auto
  from assms(2) t obtain old where o: "dict_get pct first = Inr old"
    and p: "pct' = dict_set pct first (old + (100 - sum_list (map snd pct)))"
    by (auto simp: adjust_largest_def ebind_def split: sum.splits)
  from o have m: "map_of pct first = Some old"
    by (auto simp: dict_get_def split: option.splits)
  show ?thesis
    using sum_dict_set_present [OF assms(1) m] dict_set_fst_present [of pct first] m p by simp
qed

lemma sum_over_keys:
  fixes d :: "('k \<times> int) list"
  assumes "distinct (map fst d)" "mset ks = mset (map fst d)"
  shows "sum_list (map (\<lambda>k. case map_of d k of None \<Rightarrow> 0 | Some v \<Rightarrow> v) ks) = sum_list (map snd d)"
proof -
  let ?f = "\<lambda>k. case map_of d k of None \<Rightarrow> 0 | Some v \<Rightarrow> v"
  have "sum_list (map ?f ks) = sum_mset (image_mset ?f (mset ks))"
    by (metis mset_map sum_mset_sum_list)
  also have "\<dots> = sum_mset (image_mset ?f (mset (map fst d)))"
    by (simp add: assms(2))
  also have "\<dots> = sum_list (map ?f (map fst d))"
    by (metis mset_map sum_mset_sum_list)
  also have "map ?f (map fst d) = map snd d"
    using assms(1) by (auto simp: comp_def)
  finally show ?thesis .
qed

lemma duct_bucket_fraction:
  "duct_bucket pct hi se il = Inr b \<Longrightarrow>
   hd_fraction b = (case map_of pct (snd il) of None \<Rightarrow> 0 | Some v \<Rightarrow> v)"
  by (auto simp: duct_bucket_def ebind_def dict_get_def split: sum.splits option.splits)

lemma emap_Inr_map:
  assumes "emap f xs = Inr ys" "\<And>x y. f x = Inr y \<Longrightarrow> g y = h x"
  shows "map g ys = map h xs"
  using assms
  by (induction xs arbitrary: ys) (auto simp: ebind_def split: sum.splits)

lemma emap_Inr_length: "emap f xs = Inr ys \<Longrightarrow> length ys = length xs"
  by (induction xs arbitrary: ys) (auto simp: ebind_def split: sum.splits)

lemma length_upt_1: "length [1 ..< Suc n] = n"
  by (simp del: upt_Suc)

lemma duct_buckets_sum:
  assumes d: "distinct (map fst ductfracs)"
    and r: "duct_buckets ductfracs has_ins issealedfracs = Inr ds"
  shows "length ds \<le> 3 \<and> (ds = [] \<or> sum_list (map hd_fraction ds) = 100)
         \<and> (ds = []) = (ductfracs = [])"
proof -
  let ?t = "top3locations_of ductfracs"
  let ?D = "keep_locations ?t ductfracs"
  let ?idx = "zip [1 ..< Suc (length ?t)] ?t"
  from r obtain issealed pct pct' where
    pc: "percentages ?D = Inr pct" and ad: "adjust_largest ?t pct = Inr pct'"
    and em: "emap (duct_bucket pct' (keep_locations ?t has_ins) issealed) ?idx = Inr ds"
    by (auto simp: duct_buckets_def ebind_def split: sum.splits)
  have len: "length ds = length ?t"
    using emap_Inr_length [OF em] by (simp only: length_zip length_upt_1 min.idem)
  have fr: "map hd_fraction ds = map (\<lambda>il. case map_of pct' (snd il) of None \<Rightarrow> 0 | Some v \<Rightarrow> v) ?idx"
    by (rule emap_Inr_map [OF em]) (rule duct_bucket_fraction)
  have idx: "map snd ?idx = ?t"
    by (rule map_snd_zip) (simp only: length_upt_1)
  have fr': "map hd_fraction ds = map (\<lambda>k. case map_of pct' k of None \<Rightarrow> 0 | Some v \<Rightarrow> v) ?t"
  proof -
    have "map (\<lambda>il. case map_of pct' (snd il) of None \<Rightarrow> 0 | Some v \<Rightarrow> v) ?idx
        = map (\<lambda>k. case map_of pct' k of None \<Rightarrow> 0 | Some v \<Rightarrow> v) (map snd ?idx)"
      by (simp only: map_map comp_def)
    also have "\<dots> = map (\<lambda>k. case map_of pct' k of None \<Rightarrow> 0 | Some v \<Rightarrow> v) ?t"
      by (simp only: idx)
    finally show ?thesis using fr by (simp only:)
  qed
  have dk: "distinct (map fst pct)"
    using percentages_keys [OF pc] keep_locations_distinct [OF d] by simp
  have e: "(ds = []) = (ductfracs = [])"
  proof -
    have "(?t = []) = (ductfracs = [])"
      by (cases ductfracs) (auto simp: top3locations_of_def)
    then show ?thesis using len by auto
  qed
  have "ds = [] \<or> sum_list (map hd_fraction ds) = 100"
  proof (cases "?t = []")
    case True
    then show ?thesis using len by simp
  next
    case False
    from adjust_largest_sum [OF dk ad False]
    have s: "sum_list (map snd pct') = 100" and k: "map fst pct' = map fst pct" by simp_all
    have "mset ?t = mset (map fst pct')"
      using keep_locations_keys [OF d] percentages_keys [OF pc] k by simp
    moreover have "distinct (map fst pct')" using dk k by simp
    ultimately have "sum_list (map (\<lambda>k. case map_of pct' k of None \<Rightarrow> 0 | Some v \<Rightarrow> v) ?t) = 100"
      using sum_over_keys [of pct' ?t] s by simp
    then show ?thesis using fr' by simp
  qed
  then show ?thesis using len top3_length [of ductfracs] e by simp
qed

lemma hvac_distribution_stages:
  assumes "get_systems_hvac_distribution systems = Inr ds"
  obtains st ductfracs issealedfracs where
    "efold airdistsys_step systems duct_state_init = Inr st"
    "combine_ducts (zip (airdistsystems_ductfracs st) (airdistsys_issealed st))
       = (ductfracs, issealedfracs)"
    "duct_buckets ductfracs (hescore_ductloc_has_ins st) issealedfracs = Inr ds"
proof (cases "efold airdistsys_step systems duct_state_init")
  case (Inl e)
  then show ?thesis using assms by (simp add: get_systems_hvac_distribution_def ebind_def)
next
  case (Inr st)
  obtain ductfracs issealedfracs where
    c: "combine_ducts (zip (airdistsystems_ductfracs st) (airdistsys_issealed st))
          = (ductfracs, issealedfracs)"
    by (cases "combine_ducts (zip (airdistsystems_ductfracs st) (airdistsys_issealed st))")
  have "duct_buckets ductfracs (hescore_ductloc_has_ins st) issealedfracs = Inr ds"
    using assms Inr c
    by (simp add: get_systems_hvac_distribution_def ebind_def split: if_splits)
  then show ?thesis using that [OF Inr c] by simp
qed

text \<open>
  C2 (as amended). Whenever \<^verbatim>\<open>_get_systems_hvac_distribution\<close> returns a list, the list
  holds at most three buckets, and unless it is empty the integer fractions of its buckets
  sum to exactly 100.
\<close>

theorem duct_buckets_at_most_three_sum_100:
  assumes "get_systems_hvac_distribution systems = Inr ds"
  shows "length ds \<le> 3 \<and> (ds = [] \<or> sum_list (map hd_fraction ds) = 100)"
proof -
  obtain st ductfracs issealedfracs where
    e: "efold airdistsys_step systems duct_state_init = Inr st"
    and c: "combine_ducts (zip (airdistsystems_ductfracs st) (airdistsys_issealed st))
       = (ductfracs, issealedfracs)"
    and r: "duct_buckets ductfracs (hescore_ductloc_has_ins st) issealedfracs = Inr ds"
    by (rule hvac_distribution_stages [OF assms])
  have d: "distinct (map fst ductfracs)"
    using combine_ducts_distinct [of "zip (airdistsystems_ductfracs st) (airdistsys_issealed st)"] c
    by simp
  from duct_buckets_sum [OF d r] show ?thesis by blast
qed

theorem duct_buckets_witness:
  "get_systems_hvac_distribution [example_airdistsys] = Inr example_ducts
   \<and> length example_ducts \<le> 3
   \<and> sum_list (map hd_fraction example_ducts) = 100"
proof -
  have e: "get_systems_hvac_distribution [example_airdistsys] = Inr example_ducts"
    by code_simp
  have n: "example_ducts \<noteq> []"
    by (simp add: example_ducts_def)
  from duct_buckets_at_most_three_sum_100 [OF e] e n show ?thesis by blast
qed

text \<open>
  The claim as stated fails for a building without ducts: with no air distribution
  system the list is returned empty (the correction of the largest bucket is guarded by
  \<^verbatim>\<open>len(top3locations) > 0\<close>), and the fractions of an empty list sum to 0.
\<close>

theorem no_ducts_sum_not_100:
  "get_systems_hvac_distribution [] = Inr []
   \<and> sum_list (map hd_fraction []) \<noteq> 100"
  by code_simp


subsection \<open>Heating and cooling systems\<close>

lemma round_149_160:
  "py_round_nd (149 / 160) 2 = 93 / 100" "py_round_nd (149 / 160) (Suc 0) = 9 / 10"
  by code_simp+

lemmas hvac_defs =
  get_systems_heating_def get_systems_cooling_def systems_to_combine_def default_capacity_def
  group_step_def group_key_of_def weighted_value_def finish_heating_group_def
  finish_cooling_group_def finalsys_of_def system_dict_def select_system_def opt_entry_def
  get_heating_system_type_def heating_fuel_and_type_def get_cooling_system_type_def
  cooling_type_def endswith_def startswith_def dict_get_opt_def dict_get_def dict_set_def
  fuel_type_mapping_def heating_type_map_def heating_eff_units_def cooling_type_map_def
  cooling_eff_units_def heat_pump_type_map_def eff_els_def first_year_def ebind_def
  example_furnace_def example_portable_heater_def example_air_conditioner_def

lemma two_units_grouped:
  assumes ty: "sd_type d1 = sd_type d2" and fu: "sd_fuel_primary d1 = sd_fuel_primary d2"
    and me: "sd_efficiency_method d1 = Some ''user''" "sd_efficiency_method d2 = Some ''user''"
    and ca: "sd_capacity d1 = Some 50000" "sd_capacity d2 = Some 30000"
    and ef: "sd_efficiency d1 = Some 0.95" "sd_efficiency d2 = Some 0.90"
  shows "efold (group_step True) [d1, d2] [] =
           Inr [(group_key_of d1,
                 \<lparr>cs_type = sd_type d1, cs_fuel_primary = sd_fuel_primary d1,
                  cs_efficiency_method = Some ''user'', cs_totalcapacity = 80000, cs_n = 2,
                  cs_sum = 74500\<rparr>)]"
proof -
  have k: "group_key_of d2 = group_key_of d1"
    by (simp add: group_key_of_def ty fu me)
  have s1: "group_step True d1 [] =
      Inr [(group_key_of d1,
            \<lparr>cs_type = sd_type d1, cs_fuel_primary = sd_fuel_primary d1,
             cs_efficiency_method = Some ''user'', cs_totalcapacity = 50000, cs_n = Suc 0,
             cs_sum = 47500\<rparr>)]"
    by (simp add: group_step_def ca me ef weighted_value_def ebind_def dict_set_def)
  have s2: "group_step True d2
      [(group_key_of d1,
            \<lparr>cs_type = sd_type d1, cs_fuel_primary = sd_fuel_primary d1,
             cs_efficiency_method = Some ''user'', cs_totalcapacity = 50000, cs_n = Suc 0,
             cs_sum = 47500\<rparr>)] =
      Inr [(group_key_of d1,
                 \<lparr>cs_type = sd_type d1, cs_fuel_primary = sd_fuel_primary d1,
                  cs_efficiency_method = Some ''user'', cs_totalcapacity = 80000, cs_n = 2,
                  cs_sum = 74500\<rparr>)]"
    by (simp add: group_step_def k ca me ef weighted_value_def ebind_def dict_set_def)
  show ?thesis by (simp add: s1 s2 ebind_def)
qed

text \<open>
  C7 (as amended). Two heating units that classify with the same type and fuel and the
  \<^verbatim>\<open>'user'\<close> method, with capacities 50000 and 30000 and efficiencies 0.95 and 0.90, and
  no primary system: the output dict has the efficiency 0.93 (the capacity-weighted mean
  0.93125 rounded to two places), or 0.9 for the two heat pump types, which round to one
  place; and it has no key \<^verbatim>\<open>capacity\<close>: the total 80000 is the weight of the group and
  is deleted from the output.
\<close>

theorem two_user_units_combined:
  assumes c1: "get_heating_system_type h1 = Inr d1" and c2: "get_heating_system_type h2 = Inr d2"
    and ty: "sd_type d1 = sd_type d2" and fu: "sd_fuel_primary d1 = sd_fuel_primary d2"
    and me: "sd_efficiency_method d1 = Some ''user''" "sd_efficiency_method d2 = Some ''user''"
    and ca: "sd_capacity d1 = Some 50000" "sd_capacity d2 = Some 30000"
    and ef: "sd_efficiency d1 = Some 0.95" "sd_efficiency d2 = Some 0.90"
  shows "\<exists>out. get_systems_heating None [h1, h2] = Inr out
           \<and> dict_get out ''efficiency''
               = Inr (PFloat (if sd_type d1 = ''heat_pump'' \<or> sd_type d1 = ''gchp''
                              then 0.9 else 0.93))
           \<and> dict_get out ''capacity'' = Inl KeyError"
proof -
  have a: "systems_to_combine get_heating_system_type None [h1, h2] = Inr [d1, d2]"
    by (simp add: systems_to_combine_def c1 c2 ebind_def)
  have b: "default_capacity ''heating'' [d1, d2] = Inr [d1, d2]"
    by (simp add: default_capacity_def ca)
  note g = two_units_grouped [OF ty fu me ca ef]
  let ?c = "\<lparr>cs_type = sd_type d1, cs_fuel_primary = sd_fuel_primary d1,
                  cs_efficiency_method = Some ''user'', cs_totalcapacity = 80000, cs_n = 2,
                  cs_sum = 74500\<rparr>"
  let ?e = "if sd_type d1 = ''heat_pump'' \<or> sd_type d1 = ''gchp'' then 9 / 10 else (93 / 100 :: rat)"
  have f: "finish_heating_group ?c = Inr (finalsys_of ?c True (Some ?e) None)"
    by (simp add: finish_heating_group_def round_149_160)
  have r: "get_systems_heating None [h1, h2] = system_dict (finalsys_of ?c True (Some ?e) None)"
    unfolding get_systems_heating_def a b g ebind_Inr
    by (simp add: f ebind_Inr select_system_def)
  show ?thesis
    unfolding r
    by (cases "sd_fuel_primary d1")
      (simp_all add: system_dict_def finalsys_of_def opt_entry_def dict_get_def)
qed

theorem two_user_units_combined_witness:
  "\<exists>out. get_systems_heating None [example_furnace 0.95 50000, example_furnace 0.90 30000] = Inr out
      \<and> dict_get out ''efficiency'' = Inr (PFloat 0.93)
      \<and> dict_get out ''capacity'' = Inl KeyError"
proof -
  have c: "get_heating_system_type (example_furnace e c) =
      Inr \<lparr>sd_fuel_primary = Some ''natural_gas'', sd_type = ''central_furnace'',
           sd_efficiency_method = Some ''user'', sd_efficiency = Some e, sd_year = None,
           sd_capacity = Some c\<rparr>" for e c
    by (simp add: get_heating_system_type_def heating_fuel_and_type_def example_furnace_def
          endswith_def startswith_def dict_get_opt_def dict_get_def fuel_type_mapping_def
          heating_type_map_def heating_eff_units_def eff_els_def ebind_def)
  show ?thesis
    using two_user_units_combined [OF c c, of "95 / 100" 50000 "90 / 100" 30000] by simp
qed

lemma round_19_20: "py_round_nd (19 / 20) 2 = 19 / 20"
  by code_simp

text \<open>
  The claim as stated fails on the capacity: the dict returned for two gas furnaces of
  the scenario has the keys \<^verbatim>\<open>type\<close>, \<^verbatim>\<open>fuel_primary\<close>, \<^verbatim>\<open>efficiency_method\<close> and
  \<^verbatim>\<open>efficiency\<close> only.
\<close>

theorem combined_heating_has_no_capacity:
  "get_systems_heating None [example_furnace 0.95 50000, example_furnace 0.90 30000]
     = Inr [(''type'', PStr ''central_furnace''), (''fuel_primary'', PStr ''natural_gas''),
            (''efficiency_method'', PStr ''user''), (''efficiency'', PFloat 0.93)]
   \<and> dict_get [(''type'', PStr ''central_furnace''), (''fuel_primary'', PStr ''natural_gas''),
            (''efficiency_method'', PStr ''user''), (''efficiency'', PFloat 0.93)] ''capacity''
       = Inl KeyError"
  by (simp add: hvac_defs round_149_160)

lemma ebind_InlE:
  assumes "ebind m f = Inl e"
  obtains "m = Inl e" | v where "m = Inr v" "f v = Inl e"
  using assms by (cases m) (auto simp: ebind_def)

lemma dict_get_error: "dict_get d k = Inl e \<Longrightarrow> e = KeyError"
  by (auto simp: dict_get_def split: option.splits)

lemma cooling_type_error: "cooling_type u = Inl e \<Longrightarrow> e = KeyError \<or> e = AssertionError"
  by (auto simp: cooling_type_def dict_get_opt_def split: if_splits option.splits
        dest: dict_get_error)

lemma first_year_error: "first_year ys = Inl e \<Longrightarrow> e = IndexError"
  by (auto simp: first_year_def split: list.splits)

lemma cooling_raises_no_translation_error:
  "get_cooling_system_type u \<noteq> Inl (TranslationError m)"
proof
  assume a: "get_cooling_system_type u = Inl (TranslationError m)"
  from a [unfolded get_cooling_system_type_def] show False
  proof (cases rule: ebind_InlE)
    case 1
    then show False using cooling_type_error by fastforce
  next
    case (2 t)
    from 2(2) show False
    proof (cases rule: ebind_InlE)
      case 1
      then show False using dict_get_error by fastforce
    next
      case (2 eff_units)
      then show False
        by (auto split: list.splits elim!: ebind_InlE dest: first_year_error)
    qed
  qed
qed

lemma classify_all_tolerant:
  assumes "list_all (tolerable classify) us"
  shows "classify_all classify us systems ex =
           Inr (systems @ classified classify us,
                (if translation_failures classify us = [] then ex
                 else Some (last (translation_failures classify us))))"
  using assms
proof (induction us arbitrary: systems ex)
  case Nil
  then show ?case by (simp add: classified_def translation_failures_def)
next
  case (Cons u us)
  from Cons.prems have t: "tolerable classify u" and r: "list_all (tolerable classify) us"
    by simp_all
  show ?case
  proof (cases "classify u")
    case (Inr d)
    then show ?thesis
      using Cons.IH [OF r, of "systems @ [d]" ex]
      by (simp add: classified_def translation_failures_def)
  next
    case (Inl e)
    with t obtain m where e: "e = TranslationError m"
      by (cases e) (simp_all add: tolerable_def)
    show ?thesis
      using Cons.IH [OF r, of systems "Some (TranslationError m)"] Inl e
      by (simp add: classified_def translation_failures_def)
  qed
qed

lemma failures_tolerated:
  assumes "list_all (tolerable classify) us"
  shows "systems_to_combine classify None us =
           (if classified classify us \<noteq> [] \<or> translation_failures classify us = []
            then Inr (classified classify us)
            else Inl (last (translation_failures classify us)))"
  by (simp add: systems_to_combine_def classify_all_tolerant [OF assms] ebind_def)

lemma central_air_classifies:
  "get_cooling_system_type (example_air_conditioner ''central air conditioning'')
     = Inr \<lparr>sd_fuel_primary = None, sd_type = ''split_dx'', sd_efficiency_method = Some ''user'',
            sd_efficiency = Some 13, sd_year = None, sd_capacity = Some 36000\<rparr>"
  by (simp add: hvac_defs)

lemma evaporative_cooler_key_error:
  "get_cooling_system_type (example_air_conditioner ''evaporative cooler'') = Inl KeyError"
  by (simp add: hvac_defs)

lemma furnace_classifies:
  "get_heating_system_type (example_furnace e c) =
      Inr \<lparr>sd_fuel_primary = Some ''natural_gas'', sd_type = ''central_furnace'',
           sd_efficiency_method = Some ''user'', sd_efficiency = Some e, sd_year = None,
           sd_capacity = Some c\<rparr>"
  by (simp add: get_heating_system_type_def heating_fuel_and_type_def example_furnace_def
        endswith_def startswith_def dict_get_opt_def dict_get_def fuel_type_mapping_def
        heating_type_map_def heating_eff_units_def eff_els_def ebind_def)

lemma portable_heater_translation_error:
  "get_heating_system_type example_portable_heater =
     Inl (TranslationError ''HEScore does not support the HPXML HeatingSystemType PortableHeater'')"
  by (simp add: get_heating_system_type_def heating_fuel_and_type_def
        example_portable_heater_def endswith_def startswith_def dict_get_opt_def dict_get_def
        fuel_type_mapping_def heating_type_map_def heating_eff_units_def eff_els_def ebind_def)

lemma heating_proceeds_without_portable_heater:
  "get_systems_heating None [example_furnace 0.95 50000, example_portable_heater]
     = Inr [(''type'', PStr ''central_furnace''), (''fuel_primary'', PStr ''natural_gas''),
            (''efficiency_method'', PStr ''user''), (''efficiency'', PFloat 0.95)]"
  unfolding get_systems_heating_def systems_to_combine_def
  by (simp add: furnace_classifies portable_heater_translation_error ebind_Inr
        default_capacity_def group_step_def group_key_of_def weighted_value_def dict_set_def
        finish_heating_group_def finalsys_of_def system_dict_def select_system_def opt_entry_def
        round_19_20)

text \<open>
  C4. The loops of \<^verbatim>\<open>_get_systems_heating\<close> and \<^verbatim>\<open>_get_systems_cooling\<close> tolerate the units
  whose classification raises a translation error (\<open>failures_tolerated\<close> above: the
  units that classify are combined, and only if none does is the last translation error
  raised). The heating classifier raises one for an unmapped heating system type, so a
  furnace next to a portable heater is translated. The cooling classifier raises none
  (\<open>cooling_raises_no_translation_error\<close>): its unmapped type is a KeyError, which the loop
  does not catch. So a central air conditioner next to an evaporative cooler does classify,
  and yet the translation of the cooling systems ends in KeyError instead of proceeding
  with the air conditioner.
\<close>

theorem cooling_unit_failure_aborts:
  "get_cooling_system_type (example_air_conditioner ''central air conditioning'')
     = Inr \<lparr>sd_fuel_primary = None, sd_type = ''split_dx'', sd_efficiency_method = Some ''user'',
            sd_efficiency = Some 13, sd_year = None, sd_capacity = Some 36000\<rparr>
   \<and> get_cooling_system_type (example_air_conditioner ''evaporative cooler'') = Inl KeyError
   \<and> get_systems_cooling None
        [example_air_conditioner ''central air conditioning'',
         example_air_conditioner ''evaporative cooler''] = Inl KeyError
   \<and> get_systems_heating None [example_furnace 0.95 50000, example_portable_heater]
       = Inr [(''type'', PStr ''central_furnace''), (''fuel_primary'', PStr ''natural_gas''),
              (''efficiency_method'', PStr ''user''), (''efficiency'', PFloat 0.95)]"
  using heating_proceeds_without_portable_heater
  by (simp add: central_air_classifies evaporative_cooler_key_error get_systems_cooling_def
        systems_to_combine_def ebind_def)


end
